theory Spec2Isabelle
  imports Complex_Main
begin

section \<open>JavaScript numbers\<close>

text \<open>
  The engine computes on JavaScript numbers, the binary64 values of IEEE 754. A finite
  number is \<open>Fin r\<close> with \<open>r\<close> the real it denotes; the other values are the two
  infinities and NaN. An arithmetic operation on finite numbers computes the exact real
  result and rounds it to the nearest double, ties to the even significand (\<open>round64\<close>):
  a result of magnitude \<open>2 ^ 1024\<close> or more after rounding is infinite, a result below
  \<open>2 ^ - 1022\<close> is rounded on the grid of the subnormal numbers, of step \<open>2 ^ - 1074\<close>, and
  can become zero. Operations on infinities and NaN, and division by zero, follow the IEEE rules;
  every comparison with NaN is false.

  The two zeros of IEEE 754 are the one value \<open>Fin 0\<close>. They behave alike in every
  operation the engine performs except as a divisor, where the model takes the zero as
  \<open>+0\<close>; the engine divides by a mass, by a distance (a square root, never \<open>-0\<close>), by the sum
  of the inverse masses and by the constant \<open>2\<close>. A value \<open>Fin r\<close> whose \<open>r\<close> is not a double
  is not a JavaScript number; no operation returns one.
\<close>

datatype number = Fin real | PInf | NInf | NaN

text \<open>Rounding a real to the nearest integer, a tie to the even one.\<close>

definition round_even :: "real \<Rightarrow> int" where
  "round_even t =
     (let f = \<lfloor>t\<rfloor> in
      if t - of_int f < 1 / 2 then f
      else if 1 / 2 < t - of_int f then f + 1
      else if even f then f else f + 1)"

text \<open>
  The exponent of the unit in the last place of the doubles around \<open>r\<close>: 52 below the
  binary exponent of \<open>r\<close>, and \<open>-1074\<close> in the subnormal range.
\<close>

definition ulp_exponent :: "real \<Rightarrow> int" where
  "ulp_exponent r = max (\<lfloor>log 2 \<bar>r\<bar>\<rfloor> - 52) (- 1074)"

definition round64 :: "real \<Rightarrow> number" where
  "round64 r =
     (if r = 0 then Fin 0
      else
        (let e = ulp_exponent r;
             d = of_int (round_even (r / 2 powr of_int e)) * 2 powr of_int e
         in if 2 ^ 1024 \<le> \<bar>d\<bar> then (if 0 < r then PInf else NInf) else Fin d))"

text \<open>The reals that are doubles: a significand of at most 53 bits and an exponent in range.\<close>

definition is_double :: "real \<Rightarrow> bool" where
  "is_double r \<longleftrightarrow>
     (\<exists>m e :: int. r = of_int m * 2 powr of_int e \<and> \<bar>m\<bar> < 2 ^ 53 \<and> - 1074 \<le> e \<and> e \<le> 971)"

instantiation number :: "{zero, one, plus, minus, uminus, times, inverse, abs, ord}"
begin

definition zero_number :: number where
  "zero_number = Fin 0"

definition one_number :: number where
  "one_number = Fin 1"

fun uminus_number :: "number \<Rightarrow> number" where
  "uminus_number (Fin a) = Fin (- a)"
| "uminus_number PInf = NInf"
| "uminus_number NInf = PInf"
| "uminus_number NaN = NaN"

fun plus_number :: "number \<Rightarrow> number \<Rightarrow> number" where
  "plus_number (Fin a) (Fin b) = round64 (a + b)"
| "plus_number NaN _ = NaN"
| "plus_number _ NaN = NaN"
| "plus_number PInf NInf = NaN"
| "plus_number NInf PInf = NaN"
| "plus_number PInf _ = PInf"
| "plus_number _ PInf = PInf"
| "plus_number NInf _ = NInf"
| "plus_number _ NInf = NInf"

definition minus_number :: "number \<Rightarrow> number \<Rightarrow> number" where
  "minus_number a b = a + (- b)"

fun times_number :: "number \<Rightarrow> number \<Rightarrow> number" where
  "times_number (Fin a) (Fin b) = round64 (a * b)"
| "times_number NaN _ = NaN"
| "times_number _ NaN = NaN"
| "times_number (Fin a) PInf = (if a = 0 then NaN else if 0 < a then PInf else NInf)"
| "times_number (Fin a) NInf = (if a = 0 then NaN else if 0 < a then NInf else PInf)"
| "times_number PInf (Fin b) = (if b = 0 then NaN else if 0 < b then PInf else NInf)"
| "times_number NInf (Fin b) = (if b = 0 then NaN else if 0 < b then NInf else PInf)"
| "times_number PInf PInf = PInf"
| "times_number PInf NInf = NInf"
| "times_number NInf PInf = NInf"
| "times_number NInf NInf = PInf"

fun divide_number :: "number \<Rightarrow> number \<Rightarrow> number" where
  "divide_number (Fin a) (Fin b) =
     (if b = 0 then (if a = 0 then NaN else if 0 < a then PInf else NInf)
      else round64 (a / b))"
| "divide_number NaN _ = NaN"
| "divide_number _ NaN = NaN"
| "divide_number (Fin a) PInf = Fin 0"
| "divide_number (Fin a) NInf = Fin 0"
| "divide_number PInf (Fin b) = (if 0 \<le> b then PInf else NInf)"
| "divide_number NInf (Fin b) = (if 0 \<le> b then NInf else PInf)"
| "divide_number PInf PInf = NaN"
| "divide_number PInf NInf = NaN"
| "divide_number NInf PInf = NaN"
| "divide_number NInf NInf = NaN"

definition inverse_number :: "number \<Rightarrow> number" where
  "inverse_number a = divide (Fin 1) a"

fun abs_number :: "number \<Rightarrow> number" where
  "abs_number (Fin a) = Fin \<bar>a\<bar>"
| "abs_number PInf = PInf"
| "abs_number NInf = PInf"
| "abs_number NaN = NaN"

fun less_number :: "number \<Rightarrow> number \<Rightarrow> bool" where
  "less_number (Fin a) (Fin b) = (a < b)"
| "less_number NaN _ = False"
| "less_number _ NaN = False"
| "less_number _ NInf = False"
| "less_number PInf _ = False"
| "less_number NInf _ = True"
| "less_number _ PInf = True"

fun less_eq_number :: "number \<Rightarrow> number \<Rightarrow> bool" where
  "less_eq_number (Fin a) (Fin b) = (a \<le> b)"
| "less_eq_number NaN _ = False"
| "less_eq_number _ NaN = False"
| "less_eq_number NInf _ = True"
| "less_eq_number _ PInf = True"
| "less_eq_number _ NInf = False"
| "less_eq_number PInf _ = False"

instance ..

end

text \<open>\<open>Math.sqrt\<close>: the correctly rounded square root, NaN on a negative argument.\<close>

fun Math_sqrt :: "number \<Rightarrow> number" where
  "Math_sqrt (Fin a) = (if a < 0 then NaN else round64 (sqrt a))"
| "Math_sqrt PInf = PInf"
| "Math_sqrt NInf = NaN"
| "Math_sqrt NaN = NaN"

text \<open>
  The expression \<open>a ** 2\<close>. The language leaves the accuracy of exponentiation to the
  implementation; the model takes the correctly rounded square, the value of \<open>a * a\<close>.
\<close>

definition pow2 :: "number \<Rightarrow> number" where
  "pow2 a = a * a"

text \<open>
  The expression \<open>v || 0\<close> on an optional number: \<open>undefined\<close>, \<open>0\<close> and NaN are falsy and
  give \<open>0\<close>.
\<close>

fun or_zero :: "number option \<Rightarrow> number" where
  "or_zero None = 0"
| "or_zero (Some v) = (if v = Fin 0 \<or> v = NaN then 0 else v)"

text \<open>A decimal literal of the source denotes the double nearest to it.\<close>

definition literal :: "real \<Rightarrow> number" where
  "literal r = round64 r"

section \<open>Data model\<close>

record Vector2D =
  x :: number
  y :: number

text \<open>
  \<open>NewBody\<close> is the argument type \<open>Omit<Body, 'id'>\<close> of \<open>addBody\<close>; a \<open>Body\<close> is a
  \<open>NewBody\<close> with its identifier.
\<close>

record NewBody =
  position :: Vector2D
  velocity :: Vector2D
  acceleration :: Vector2D
  mass :: number
  radius :: number
  color :: string

record Body = NewBody +
  id_body :: string

record Canvas =
  width :: number
  height :: number

text \<open>
  The mutable state of the component: the body list behind \<open>bodiesRef\<close>, the canvas behind
  \<open>canvasRef\<close> (\<open>None\<close> while the reference is null) and the three simulation parameters.
\<close>

record Engine =
  bodiesRef :: "Body list"
  canvasRef :: "Canvas option"
  gravityMagnitude :: number
  frictionEnabled :: bool
  elasticity :: number

section \<open>Body store\<close>

text \<open>
  \<open>addBody\<close> draws the identifier from \<open>Math.random().toString(36).substr(2, 9)\<close>. The
  string \<open>Math.random().toString(36)\<close> is the result of the random draw and is passed in as
  \<open>rnd\<close>; \<open>substr(2, 9)\<close> keeps at most nine characters from index two on.
\<close>

definition substr :: "string \<Rightarrow> nat \<Rightarrow> nat \<Rightarrow> string" where
  "substr s start len = take len (drop start s)"

definition addBody :: "string \<Rightarrow> NewBody \<Rightarrow> Engine \<Rightarrow> Engine" where
  "addBody rnd newBody eng =
     eng\<lparr>bodiesRef := bodiesRef eng @ [NewBody.extend newBody (Body.fields (substr rnd 2 9))]\<rparr>"

definition clearBodies :: "Engine \<Rightarrow> Engine" where
  "clearBodies eng = eng\<lparr>bodiesRef := []\<rparr>"

section \<open>Integrator\<close>

definition GRAVITY :: "Engine \<Rightarrow> Vector2D" where
  "GRAVITY eng = \<lparr>x = 0, y = gravityMagnitude eng\<rparr>"

definition accelerationX :: "Engine \<Rightarrow> Body \<Rightarrow> number" where
  "accelerationX eng body = (let forceX = mass body * x (GRAVITY eng) in forceX / mass body)"

definition accelerationY :: "Engine \<Rightarrow> Body \<Rightarrow> number" where
  "accelerationY eng body = (let forceY = mass body * y (GRAVITY eng) in forceY / mass body)"

definition frictionCoefficient :: number where
  "frictionCoefficient = literal (9 / 10)"

text \<open>The two friction tests, on the position the body has before it is moved.\<close>

definition on_ground :: "Engine \<Rightarrow> Body \<Rightarrow> bool" where
  "on_ground eng body \<longleftrightarrow>
     y (position body) + radius body \<ge> or_zero (map_option height (canvasRef eng)) - 1"

definition against_wall :: "Engine \<Rightarrow> Body \<Rightarrow> bool" where
  "against_wall eng body \<longleftrightarrow>
     x (position body) + radius body \<ge> or_zero (map_option width (canvasRef eng)) - 1
     \<or> x (position body) - radius body \<le> 1"

definition integrate :: "Engine \<Rightarrow> number \<Rightarrow> Body \<Rightarrow> Body" where
  "integrate eng deltaTime body =
     (let newVelocityX = x (velocity body) + accelerationX eng body * deltaTime;
          newVelocityY = y (velocity body) + accelerationY eng body * deltaTime;
          newVelocityX = (if frictionEnabled eng \<and> on_ground eng body
                          then newVelocityX * frictionCoefficient else newVelocityX);
          newVelocityY = (if frictionEnabled eng \<and> against_wall eng body
                          then newVelocityY * frictionCoefficient else newVelocityY);
          newPositionX = x (position body) + newVelocityX * deltaTime;
          newPositionY = y (position body) + newVelocityY * deltaTime
      in body\<lparr>velocity := \<lparr>x = newVelocityX, y = newVelocityY\<rparr>,
              position := \<lparr>x = newPositionX, y = newPositionY\<rparr>\<rparr>)"

section \<open>Collision detection and response\<close>

definition distance :: "Body \<Rightarrow> Body \<Rightarrow> number" where
  "distance bodyA bodyB =
     Math_sqrt (pow2 (x (position bodyA) - x (position bodyB))
              + pow2 (y (position bodyA) - y (position bodyB)))"

definition normalX :: "Body \<Rightarrow> Body \<Rightarrow> number" where
  "normalX bodyA bodyB = (x (position bodyB) - x (position bodyA)) / distance bodyA bodyB"

definition normalY :: "Body \<Rightarrow> Body \<Rightarrow> number" where
  "normalY bodyA bodyB = (y (position bodyB) - y (position bodyA)) / distance bodyA bodyB"

definition dotProduct :: "Body \<Rightarrow> Body \<Rightarrow> number" where
  "dotProduct bodyA bodyB =
     (let relativeVelocityX = x (velocity bodyB) - x (velocity bodyA);
          relativeVelocityY = y (velocity bodyB) - y (velocity bodyA)
      in relativeVelocityX * normalX bodyA bodyB + relativeVelocityY * normalY bodyA bodyB)"

definition impulse :: "Engine \<Rightarrow> Body \<Rightarrow> Body \<Rightarrow> number" where
  "impulse eng bodyA bodyB =
     (- (1 + elasticity eng) * dotProduct bodyA bodyB) / (1 / mass bodyA + 1 / mass bodyB)"

definition impulseX :: "Engine \<Rightarrow> Body \<Rightarrow> Body \<Rightarrow> number" where
  "impulseX eng bodyA bodyB = impulse eng bodyA bodyB * normalX bodyA bodyB"

definition impulseY :: "Engine \<Rightarrow> Body \<Rightarrow> Body \<Rightarrow> number" where
  "impulseY eng bodyA bodyB = impulse eng bodyA bodyB * normalY bodyA bodyB"

text \<open>
  The body of the inner loop for one pair. The source updates the two objects in place; the
  model returns the pair of updated bodies.
\<close>

definition resolve_pair :: "Engine \<Rightarrow> Body \<Rightarrow> Body \<Rightarrow> Body \<times> Body" where
  "resolve_pair eng bodyA bodyB =
     (if distance bodyA bodyB < radius bodyA + radius bodyB then
        (if dotProduct bodyA bodyB < 0 then
           (let overlap = radius bodyA + radius bodyB - distance bodyA bodyB;
                separationX = (overlap / Fin 2) * normalX bodyA bodyB;
                separationY = (overlap / Fin 2) * normalY bodyA bodyB
            in (bodyA\<lparr>velocity :=
                         \<lparr>x = x (velocity bodyA) - impulseX eng bodyA bodyB / mass bodyA,
                          y = y (velocity bodyA) - impulseY eng bodyA bodyB / mass bodyA\<rparr>,
                       position := \<lparr>x = x (position bodyA) - separationX,
                                     y = y (position bodyA) - separationY\<rparr>\<rparr>,
                bodyB\<lparr>velocity :=
                         \<lparr>x = x (velocity bodyB) + impulseX eng bodyA bodyB / mass bodyB,
                          y = y (velocity bodyB) + impulseY eng bodyA bodyB / mass bodyB\<rparr>,
                       position := \<lparr>x = x (position bodyB) + separationX,
                                     y = y (position bodyB) + separationY\<rparr>\<rparr>))
         else (bodyA, bodyB))
      else (bodyA, bodyB))"

text \<open>
  The two nested \<open>for\<close> loops over the pairs \<open>i < j\<close>, as one function on the loop
  counters: the inner loop advances \<open>j\<close>, and when it is exhausted the outer loop advances
  \<open>i\<close> and restarts \<open>j\<close> at \<open>i + 1\<close>.
\<close>

function collisions :: "Engine \<Rightarrow> nat \<Rightarrow> nat \<Rightarrow> Body list \<Rightarrow> Body list" where
  "collisions eng i j bodies =
     (if i < length bodies then
        (if j < length bodies then
           (case resolve_pair eng (bodies ! i) (bodies ! j) of
              (bodyA, bodyB) \<Rightarrow> collisions eng i (j + 1) (bodies[i := bodyA, j := bodyB]))
         else collisions eng (i + 1) (i + 2) bodies)
      else bodies)"
  by pat_completeness auto
termination
  by (relation "measures [\<lambda>(eng, i, j, bodies). length bodies - i,
                          \<lambda>(eng, i, j, bodies). length bodies - j]") auto

declare collisions.simps [simp del]

section \<open>Boundary handler\<close>

text \<open>The test \<open>if (Math.abs(v) < 0.1) v = 0\<close> that stops small bounces.\<close>

definition stop_small :: "number \<Rightarrow> number" where
  "stop_small v = (if \<bar>v\<bar> < literal (1 / 10) then 0 else v)"

definition floor_wall :: "Engine \<Rightarrow> Canvas \<Rightarrow> Body \<Rightarrow> Body" where
  "floor_wall eng canvas body =
     (if y (position body) + radius body > height canvas then
        body\<lparr>position := (position body)\<lparr>y := height canvas - radius body\<rparr>,
             velocity := (velocity body)\<lparr>y := stop_small (y (velocity body) * (- elasticity eng))\<rparr>\<rparr>
      else body)"

definition ceiling_wall :: "Engine \<Rightarrow> Canvas \<Rightarrow> Body \<Rightarrow> Body" where
  "ceiling_wall eng canvas body =
     (if y (position body) - radius body < 0 then
        body\<lparr>position := (position body)\<lparr>y := radius body\<rparr>,
             velocity := (velocity body)\<lparr>y := stop_small (y (velocity body) * (- elasticity eng))\<rparr>\<rparr>
      else body)"

definition right_wall :: "Engine \<Rightarrow> Canvas \<Rightarrow> Body \<Rightarrow> Body" where
  "right_wall eng canvas body =
     (if x (position body) + radius body > width canvas then
        body\<lparr>position := (position body)\<lparr>x := width canvas - radius body\<rparr>,
             velocity := (velocity body)\<lparr>x := stop_small (x (velocity body) * (- elasticity eng))\<rparr>\<rparr>
      else body)"

definition left_wall :: "Engine \<Rightarrow> Canvas \<Rightarrow> Body \<Rightarrow> Body" where
  "left_wall eng canvas body =
     (if x (position body) - radius body < 0 then
        body\<lparr>position := (position body)\<lparr>x := radius body\<rparr>,
             velocity := (velocity body)\<lparr>x := stop_small (x (velocity body) * (- elasticity eng))\<rparr>\<rparr>
      else body)"

text \<open>The callback of the final \<open>forEach\<close>: nothing happens while there is no canvas.\<close>

definition boundary :: "Engine \<Rightarrow> Body \<Rightarrow> Body" where
  "boundary eng body =
     (case canvasRef eng of
        None \<Rightarrow> body
      | Some canvas \<Rightarrow>
          left_wall eng canvas (right_wall eng canvas (ceiling_wall eng canvas (floor_wall eng canvas body))))"

section \<open>One tick\<close>

definition updatePhysics :: "number \<Rightarrow> Engine \<Rightarrow> Engine" where
  "updatePhysics deltaTime eng =
     eng\<lparr>bodiesRef :=
           map (boundary eng) (collisions eng 0 1 (map (integrate eng deltaTime) (bodiesRef eng)))\<rparr>"

section \<open>Observations used in the statements\<close>

text \<open>A number is finite when it is neither an infinity nor NaN; \<open>val\<close> is its real value.\<close>

fun is_fin :: "number \<Rightarrow> bool" where
  "is_fin (Fin a) = True"
| "is_fin PInf = False"
| "is_fin NInf = False"
| "is_fin NaN = False"

fun val :: "number \<Rightarrow> real" where
  "val (Fin a) = a"
| "val PInf = 0"
| "val NInf = 0"
| "val NaN = 0"

text \<open>The fields of a body that are neither its position nor its velocity.\<close>

definition frame :: "Body \<Rightarrow> string \<times> number \<times> number \<times> string \<times> Vector2D" where
  "frame body = (id_body body, mass body, radius body, color body, acceleration body)"

text \<open>No component of the position or of the velocity of a body is NaN.\<close>

definition no_NaN :: "Body \<Rightarrow> bool" where
  "no_NaN body \<longleftrightarrow>
     x (position body) \<noteq> NaN \<and> y (position body) \<noteq> NaN \<and>
     x (velocity body) \<noteq> NaN \<and> y (velocity body) \<noteq> NaN"

text \<open>Both components of the velocity of a body are finite.\<close>

definition finite_velocity :: "Body \<Rightarrow> bool" where
  "finite_velocity body \<longleftrightarrow> is_fin (x (velocity body)) \<and> is_fin (y (velocity body))"

text \<open>
  The body lies inside the world rectangle, a radius away from every wall.
\<close>

definition in_bounds :: "Canvas \<Rightarrow> Body \<Rightarrow> bool" where
  "in_bounds canvas body \<longleftrightarrow>
     radius body \<le> x (position body) \<and> x (position body) \<le> width canvas - radius body \<and>
     radius body \<le> y (position body) \<and> y (position body) \<le> height canvas - radius body"

text \<open>
  A number that is a finite double, and a finite number that is an integer multiple of
  \<open>2 ^ - 1074\<close>, the step of the subnormal numbers; the infinities and NaN count as
  multiples. Every double is such a multiple, and so is every result of \<open>round64\<close>.
\<close>

fun double_number :: "number \<Rightarrow> bool" where
  "double_number (Fin r) = is_double r"
| "double_number PInf = False"
| "double_number NInf = False"
| "double_number NaN = False"

fun gridded :: "number \<Rightarrow> bool" where
  "gridded (Fin r) = (\<exists>k :: int. r = of_int k * 2 powr (- 1074))"
| "gridded PInf = True"
| "gridded NInf = True"
| "gridded NaN = True"

definition gridded_position :: "Body \<Rightarrow> bool" where
  "gridded_position body \<longleftrightarrow> gridded (x (position body)) \<and> gridded (y (position body))"

text \<open>
  The momentum \<open>massA * velA + massB * velB\<close> of a pair and the kinetic energy
  \<open>m * |v|\<^sup>2 / 2\<close> of a body, as the real numbers that the stored masses and velocities
  denote: these are the physical quantities of a state, not values the engine computes.
\<close>

definition momentumX :: "Body \<Rightarrow> Body \<Rightarrow> real" where
  "momentumX bodyA bodyB =
     val (mass bodyA) * val (x (velocity bodyA)) + val (mass bodyB) * val (x (velocity bodyB))"

definition momentumY :: "Body \<Rightarrow> Body \<Rightarrow> real" where
  "momentumY bodyA bodyB =
     val (mass bodyA) * val (y (velocity bodyA)) + val (mass bodyB) * val (y (velocity bodyB))"


text \<open>
  The rounding error that the two velocity updates of one component can add to the momentum
  of a pair. \<open>J\<close> is the computed component of the impulse, \<open>qa\<close> and \<open>qb\<close> the computed
  quotients \<open>J / massA\<close> and \<open>J / massB\<close>, \<open>u\<close> and \<open>w\<close> the velocities before. Each of the two
  divisions and of the two additions has a relative error of at most \<open>2 ^ - 53\<close> and, in
  the subnormal range, an absolute error of at most \<open>2 ^ - 1075\<close>.
\<close>

definition momentum_tolerance :: "real \<Rightarrow> real \<Rightarrow> real \<Rightarrow> real \<Rightarrow> real \<Rightarrow> real \<Rightarrow> real \<Rightarrow> real" where
  "momentum_tolerance ma mb J u qa w qb =
     (2 * \<bar>J\<bar> + ma * \<bar>u - qa\<bar> + mb * \<bar>w + qb\<bar>) / 2 ^ 53 + (ma + mb) / 2 ^ 1074"

definition momentum_toleranceX :: "Engine \<Rightarrow> Body \<Rightarrow> Body \<Rightarrow> real" where
  "momentum_toleranceX eng bodyA bodyB =
     momentum_tolerance (val (mass bodyA)) (val (mass bodyB)) (val (impulseX eng bodyA bodyB))
       (val (x (velocity bodyA))) (val (impulseX eng bodyA bodyB / mass bodyA))
       (val (x (velocity bodyB))) (val (impulseX eng bodyA bodyB / mass bodyB))"

definition momentum_toleranceY :: "Engine \<Rightarrow> Body \<Rightarrow> Body \<Rightarrow> real" where
  "momentum_toleranceY eng bodyA bodyB =
     momentum_tolerance (val (mass bodyA)) (val (mass bodyB)) (val (impulseY eng bodyA bodyB))
       (val (y (velocity bodyA))) (val (impulseY eng bodyA bodyB / mass bodyA))
       (val (y (velocity bodyB))) (val (impulseY eng bodyA bodyB / mass bodyB))"

text \<open>
  The rounding error of the acceleration \<open>(mass * g) / mass\<close>: \<open>F\<close> is the computed force
  \<open>mass * g\<close>.
\<close>

definition acceleration_tolerance :: "real \<Rightarrow> real \<Rightarrow> real \<Rightarrow> real" where
  "acceleration_tolerance m g F = (\<bar>g\<bar> + \<bar>F\<bar> / m) / 2 ^ 53 + (1 + 1 / m) / 2 ^ 1075"


section \<open>Sample states\<close>

text \<open>The canvas and the parameters the component starts with.\<close>

definition demo_canvas :: Canvas where
  "demo_canvas = \<lparr>width = Fin 800, height = Fin 600\<rparr>"

definition demo_engine :: Engine where
  "demo_engine =
     \<lparr>bodiesRef = [], canvasRef = Some demo_canvas, gravityMagnitude = literal (49 / 5),
      frictionEnabled = True, elasticity = literal (7 / 10)\<rparr>"

text \<open>The body the component adds when it is mounted, before its identifier is drawn.\<close>

definition initial_body :: NewBody where
  "initial_body =
     \<lparr>position = \<lparr>x = Fin 400, y = Fin 50\<rparr>, velocity = \<lparr>x = Fin 0, y = Fin 0\<rparr>,
      acceleration = \<lparr>x = Fin 0, y = Fin 0\<rparr>, mass = Fin 10, radius = Fin 20, color = ''blue''\<rparr>"

text \<open>Two overlapping bodies of equal mass, one unit apart, moving towards each other.\<close>

definition left_ball :: Body where
  "left_ball =
     \<lparr>position = \<lparr>x = Fin 100, y = Fin 100\<rparr>, velocity = \<lparr>x = Fin 3, y = Fin 0\<rparr>,
      acceleration = \<lparr>x = Fin 0, y = Fin 0\<rparr>, mass = Fin 2, radius = Fin 1, color = ''red'',
      id_body = ''a''\<rparr>"

definition right_ball :: Body where
  "right_ball =
     \<lparr>position = \<lparr>x = Fin 101, y = Fin 100\<rparr>, velocity = \<lparr>x = Fin (- 3), y = Fin 0\<rparr>,
      acceleration = \<lparr>x = Fin 0, y = Fin 0\<rparr>, mass = Fin 2, radius = Fin 1, color = ''green'',
      id_body = ''b''\<rparr>"

text \<open>A body half a unit above the floor of the sample canvas, sliding to the right.\<close>

definition hover_body :: Body where
  "hover_body =
     \<lparr>position = \<lparr>x = Fin 400, y = Fin (1159 / 2)\<rparr>, velocity = \<lparr>x = Fin 10, y = Fin 0\<rparr>,
      acceleration = \<lparr>x = Fin 0, y = Fin 0\<rparr>, mass = Fin 10, radius = Fin 20, color = ''blue'',
      id_body = ''4fzyo82mv''\<rparr>"

text \<open>
  A body whose lower edge is \<open>1 + 2 ^ - 44\<close> above the floor, sliding to the right, and a body
  whose lower edge is \<open>2 ^ - 44\<close> below the floor: the sums \<open>position.y + radius\<close> round to
  \<open>599\<close> and to \<open>600\<close>.
\<close>

definition near_floor_body :: Body where
  "near_floor_body =
     \<lparr>position = \<lparr>x = Fin 400, y = Fin (8778500836163583 / 2 ^ 44)\<rparr>,
      velocity = \<lparr>x = Fin 10, y = Fin 0\<rparr>, acceleration = \<lparr>x = Fin 0, y = Fin 0\<rparr>,
      mass = Fin 10, radius = Fin 100, color = ''blue'', id_body = ''h''\<rparr>"

definition edge_body :: Body where
  "edge_body =
     \<lparr>position = \<lparr>x = Fin 400, y = Fin (8796093022208001 / 2 ^ 44)\<rparr>,
      velocity = \<lparr>x = Fin 0, y = Fin 0\<rparr>, acceleration = \<lparr>x = Fin 0, y = Fin 0\<rparr>,
      mass = Fin 10, radius = Fin 100, color = ''blue'', id_body = ''g''\<rparr>"

text \<open>A body below the floor, moving down, and a body wider than the canvas is high.\<close>

definition floor_body :: Body where
  "floor_body =
     \<lparr>position = \<lparr>x = Fin 400, y = Fin 590\<rparr>, velocity = \<lparr>x = Fin 0, y = Fin 8\<rparr>,
      acceleration = \<lparr>x = Fin 0, y = Fin 0\<rparr>, mass = Fin 10, radius = Fin 20, color = ''blue'',
      id_body = ''f''\<rparr>"

definition big_body :: Body where
  "big_body =
     \<lparr>position = \<lparr>x = Fin 400, y = Fin 300\<rparr>, velocity = \<lparr>x = Fin 0, y = Fin 0\<rparr>,
      acceleration = \<lparr>x = Fin 0, y = Fin 0\<rparr>, mass = Fin 10, radius = Fin 400, color = ''blue'',
      id_body = ''d''\<rparr>"

text \<open>
  Worlds without friction, with gravity \<open>0.1\<close> and with gravity \<open>1.25\<close>, and bodies of mass
  \<open>3\<close>, \<open>2\<close> and \<open>2 ^ 1023\<close>.
\<close>

definition light_engine :: Engine where
  "light_engine =
     \<lparr>bodiesRef = [], canvasRef = Some demo_canvas, gravityMagnitude = literal (1 / 10),
      frictionEnabled = False, elasticity = literal (7 / 10)\<rparr>"

definition calm_engine :: Engine where
  "calm_engine =
     \<lparr>bodiesRef = [], canvasRef = Some demo_canvas, gravityMagnitude = Fin (5 / 4),
      frictionEnabled = False, elasticity = literal (7 / 10)\<rparr>"

definition three_body :: Body where
  "three_body =
     \<lparr>position = \<lparr>x = Fin 400, y = Fin 50\<rparr>, velocity = \<lparr>x = Fin 0, y = Fin 0\<rparr>,
      acceleration = \<lparr>x = Fin 0, y = Fin 0\<rparr>, mass = Fin 3, radius = Fin 20, color = ''blue'',
      id_body = ''e''\<rparr>"

definition falling_body :: Body where
  "falling_body =
     \<lparr>position = \<lparr>x = Fin 400, y = Fin 50\<rparr>, velocity = \<lparr>x = Fin 10, y = Fin 0\<rparr>,
      acceleration = \<lparr>x = Fin 0, y = Fin 0\<rparr>, mass = Fin 2, radius = Fin 20, color = ''blue'',
      id_body = ''c''\<rparr>"

definition huge_body :: Body where
  "huge_body =
     \<lparr>position = \<lparr>x = Fin 400, y = Fin 50\<rparr>, velocity = \<lparr>x = Fin 0, y = Fin 0\<rparr>,
      acceleration = \<lparr>x = Fin 0, y = Fin 0\<rparr>, mass = Fin (2 ^ 1023), radius = Fin 20,
      color = ''blue'', id_body = ''i''\<rparr>"

text \<open>Worlds with elasticity \<open>0.5\<close> and \<open>1\<close>.\<close>

definition half_engine :: Engine where
  "half_engine =
     \<lparr>bodiesRef = [], canvasRef = Some demo_canvas, gravityMagnitude = literal (49 / 5),
      frictionEnabled = True, elasticity = Fin (1 / 2)\<rparr>"


text \<open>
  Pairs of overlapping bodies one unit apart that move towards each other along the line of
  their centres: masses \<open>1\<close> and \<open>6\<close>, two masses \<open>49\<close>, masses \<open>1\<close> and \<open>2\<close>.
\<close>

definition light_ball :: Body where
  "light_ball =
     \<lparr>position = \<lparr>x = Fin 100, y = Fin 100\<rparr>, velocity = \<lparr>x = Fin 4, y = Fin 0\<rparr>,
      acceleration = \<lparr>x = Fin 0, y = Fin 0\<rparr>, mass = Fin 1, radius = Fin 1, color = ''red'',
      id_body = ''a''\<rparr>"

definition heavy_ball :: Body where
  "heavy_ball =
     \<lparr>position = \<lparr>x = Fin 101, y = Fin 100\<rparr>, velocity = \<lparr>x = Fin (- 1), y = Fin 0\<rparr>,
      acceleration = \<lparr>x = Fin 0, y = Fin 0\<rparr>, mass = Fin 6, radius = Fin 1, color = ''green'',
      id_body = ''b''\<rparr>"





text \<open>
  A body at rest and an overlapping body, five units away along \<open>(3, 4)\<close>, that slides past
  it with velocity \<open>(4, - 3)\<close>, at a right angle to the line of the centres.
\<close>

definition still_ball :: Body where
  "still_ball =
     \<lparr>position = \<lparr>x = Fin 100, y = Fin 100\<rparr>, velocity = \<lparr>x = Fin 0, y = Fin 0\<rparr>,
      acceleration = \<lparr>x = Fin 0, y = Fin 0\<rparr>, mass = Fin 1, radius = Fin 5, color = ''red'',
      id_body = ''a''\<rparr>"

definition sliding_ball :: Body where
  "sliding_ball =
     \<lparr>position = \<lparr>x = Fin 103, y = Fin 104\<rparr>, velocity = \<lparr>x = Fin 4, y = Fin (- 3)\<rparr>,
      acceleration = \<lparr>x = Fin 0, y = Fin 0\<rparr>, mass = Fin 1, radius = Fin 5, color = ''green'',
      id_body = ''b''\<rparr>"

text \<open>Two bodies whose centres are \<open>2 ^ - 600\<close> apart on each axis.\<close>

definition origin_ball :: Body where
  "origin_ball =
     \<lparr>position = \<lparr>x = Fin 0, y = Fin 0\<rparr>, velocity = \<lparr>x = Fin 0, y = Fin 0\<rparr>,
      acceleration = \<lparr>x = Fin 0, y = Fin 0\<rparr>, mass = Fin 1, radius = Fin 1, color = ''red'',
      id_body = ''a''\<rparr>"

definition close_ball :: Body where
  "close_ball =
     \<lparr>position = \<lparr>x = Fin (1 / 2 ^ 600), y = Fin (1 / 2 ^ 600)\<rparr>,
      velocity = \<lparr>x = Fin 0, y = Fin 0\<rparr>, acceleration = \<lparr>x = Fin 0, y = Fin 0\<rparr>,
      mass = Fin 1, radius = Fin 1, color = ''green'', id_body = ''b''\<rparr>"

section \<open>Facts about numbers\<close>

lemmas number_defs = zero_number_def one_number_def minus_number_def pow2_def

lemmas demo_defs = demo_canvas_def demo_engine_def hover_body_def left_ball_def right_ball_def

subsection \<open>Rounding\<close>

lemma round_even_of_int [simp]: "round_even (of_int n) = n"
  by (simp add: round_even_def)

lemma round_even_error: "\<bar>of_int (round_even t) - t\<bar> \<le> 1 / 2"
  unfolding round_even_def Let_def by (auto simp: abs_le_iff; linarith)

lemma round_even_le_ceiling: "round_even t \<le> \<lceil>t\<rceil>"
  unfolding round_even_def Let_def by (auto simp: ceiling_altdef)

lemma round_even_ge_floor: "\<lfloor>t\<rfloor> \<le> round_even t"
  unfolding round_even_def Let_def by auto

lemma round64_0 [simp]: "round64 0 = Fin 0"
  by (simp add: round64_def)

lemma ulp_exponent_eq:
  assumes "2 powr of_int L \<le> \<bar>r\<bar>" and "\<bar>r\<bar> < 2 powr of_int (L + 1)"
  shows "ulp_exponent r = max (L - 52) (- 1074)"
proof -
  have "0 < (2::real) powr of_int L" by simp
  with assms(1) have "0 < \<bar>r\<bar>" by linarith
  then have "\<lfloor>log 2 \<bar>r\<bar>\<rfloor> = L"
    using assms by (subst floor_log_eq_powr_iff) simp_all
  then show ?thesis by (simp add: ulp_exponent_def)
qed

text \<open>
  Rounding a given real by hand: \<open>L\<close> is its binary exponent, \<open>e\<close> the exponent of the unit
  in the last place and \<open>m\<close> the rounded significand.
\<close>

lemma round64_eval:
  assumes "2 powr of_int L \<le> \<bar>r\<bar>" and "\<bar>r\<bar> < 2 powr of_int (L + 1)"
    and "e = max (L - 52) (- 1074)"
    and "round_even (r / 2 powr of_int e) = m"
    and "\<bar>of_int m * 2 powr of_int e\<bar> < (2::real) ^ 1024"
  shows "round64 r = Fin (of_int m * 2 powr of_int e)"
proof -
  have "0 < (2::real) powr of_int L" by simp
  with assms(1) have "r \<noteq> 0" by auto
  moreover have "ulp_exponent r = e"
    using ulp_exponent_eq [OF assms(1,2)] assms(3) by simp
  ultimately show ?thesis
    using assms(4,5) by (simp add: round64_def Let_def)
qed

lemma powr_int_diff: "(2::real) powr of_int e / 2 powr of_int E = 2 ^ nat (e - E)" if "E \<le> e"
proof -
  have "(2::real) powr of_int e / 2 powr of_int E = 2 powr (of_int e - of_int E)"
    by (simp add: powr_diff)
  also have "of_int e - of_int E = real (nat (e - E))" using that by simp
  also have "(2::real) powr real (nat (e - E)) = 2 ^ nat (e - E)"
    by (rule powr_realpow) simp
  finally show ?thesis .
qed

lemma floor_log2_less:
  assumes "0 < r" and "r < 2 powr of_int k"
  shows "\<lfloor>log 2 r\<rfloor> < k"
proof -
  from assms have "log 2 r < of_int k"
    by (simp add: log_less_iff)
  then show ?thesis by linarith
qed

text \<open>A double is its own rounding.\<close>

lemma round64_representable:
  assumes "is_double r"
  shows "round64 r = Fin r"
proof (cases "r = 0")
  case True
  then show ?thesis by (simp add: round64_def)
next
  case False
  from assms obtain m e :: int where r: "r = of_int m * 2 powr of_int e"
    and m: "\<bar>m\<bar> < 2 ^ 53" and e: "- 1074 \<le> e" "e \<le> 971"
    unfolding is_double_def by blast
  have abs_r: "\<bar>r\<bar> = of_int \<bar>m\<bar> * 2 powr of_int e"
    by (simp add: r abs_mult)
  from m have "real_of_int \<bar>m\<bar> < 2 ^ 53"
    by (metis of_int_less_iff of_int_numeral of_int_power)
  then have "\<bar>r\<bar> < 2 ^ 53 * 2 powr of_int e"
    unfolding abs_r by (simp add: mult_strict_right_mono)
  also have "\<dots> = 2 powr of_int (53 + e)"
    by (simp add: powr_add)
  finally have lt: "\<bar>r\<bar> < 2 powr of_int (53 + e)" .
  from False have "0 < \<bar>r\<bar>" by simp
  from floor_log2_less [OF this lt] have "\<lfloor>log 2 \<bar>r\<bar>\<rfloor> - 52 \<le> e" by simp
  with e(1) have E: "ulp_exponent r \<le> e" by (simp add: ulp_exponent_def)
  define E where "E = ulp_exponent r"
  have "r / 2 powr of_int E = of_int m * (2 powr of_int e / 2 powr of_int E)"
    by (simp add: r)
  also have "\<dots> = of_int (m * 2 ^ nat (e - E))"
    using E by (simp add: powr_int_diff E_def)
  finally have q: "r / 2 powr of_int E = of_int (m * 2 ^ nat (e - E))" .
  have d: "of_int (round_even (r / 2 powr of_int E)) * 2 powr of_int E = r"
    unfolding q round_even_of_int using q by (simp add: field_simps)
  have "real_of_int (53 + e) \<le> 1024" using e(2) by simp
  then have "(2::real) powr of_int (53 + e) \<le> 2 powr 1024"
    by (rule powr_mono) simp
  also have "\<dots> = 2 ^ 1024" by simp
  finally have "\<bar>r\<bar> < 2 ^ 1024" using lt by simp
  then have "\<not> 2 ^ 1024 \<le> \<bar>r\<bar>" by simp
  with False d show ?thesis
    by (simp add: round64_def Let_def E_def)
qed

lemma is_double_of_int: "\<bar>n\<bar> < 2 ^ 53 \<Longrightarrow> is_double (of_int n)"
  unfolding is_double_def by (rule exI [of _ n], rule exI [of _ 0]) simp

lemma is_double_scaled:
  assumes "\<bar>n\<bar> < 2 ^ 53" and "- 1074 \<le> e" and "e \<le> 971"
  shows "is_double (of_int n * 2 powr of_int e)"
  unfolding is_double_def using assms by blast

lemma is_double_numeral: "(numeral k :: int) < 2 ^ 53 \<Longrightarrow> is_double (numeral k)"
  using is_double_of_int [of "numeral k"] by simp

lemma is_double_0: "is_double 0"
  using is_double_of_int [of 0] by simp

lemma is_double_1: "is_double 1"
  using is_double_of_int [of 1] by simp

lemma is_double_minus: "is_double (- r) = is_double r"
proof -
  have "is_double (- r)" if "is_double r" for r
  proof -
    from that obtain m e :: int where "r = of_int m * 2 powr of_int e"
      and "\<bar>m\<bar> < 2 ^ 53" and "- 1074 \<le> e" "e \<le> 971"
      unfolding is_double_def by blast
    then have "- r = of_int (- m) * 2 powr of_int e \<and> \<bar>- m\<bar> < 2 ^ 53 \<and> - 1074 \<le> e \<and> e \<le> 971"
      by simp
    then show ?thesis unfolding is_double_def by blast
  qed
  from this [of r] this [of "- r"] show ?thesis by auto
qed

lemma is_double_ratio:
  assumes "\<bar>n\<bar> < 2 ^ 53" and "j \<le> 1074"
  shows "is_double (of_int n / 2 ^ j)"
proof -
  have "(2::real) powr of_int (- int j) = 1 / 2 ^ j"
    by (simp add: powr_minus powr_realpow inverse_eq_divide)
  with is_double_scaled [of n "- int j"] assms show ?thesis by simp
qed

lemma is_double_fraction:
  "(numeral k :: int) < 2 ^ 53 \<Longrightarrow> j \<le> 1074 \<Longrightarrow> is_double (numeral k / 2 ^ j)"
proof -
  assume k: "(numeral k :: int) < 2 ^ 53" and j: "j \<le> 1074"
  have "(2::real) powr of_int (- int j) = 1 / 2 ^ j"
    by (simp add: powr_minus powr_realpow inverse_eq_divide)
  with is_double_scaled [of "numeral k" "- int j"] k j show ?thesis by simp
qed

lemma is_double_half: "(numeral k :: int) < 2 ^ 53 \<Longrightarrow> is_double (numeral k / 2)"
  using is_double_fraction [of k 1] by simp

lemmas double_simps = round64_representable is_double_numeral is_double_minus
  is_double_0 is_double_1

text \<open>
  The error of a rounding that stays finite: half a unit in the last place, which is at most
  \<open>2 ^ - 53\<close> of the magnitude in the normal range and \<open>2 ^ - 1075\<close> in the subnormal range.
\<close>

lemma round64_error:
  assumes "round64 r = Fin d"
  shows "\<bar>d - r\<bar> \<le> \<bar>r\<bar> / 2 ^ 53 + 1 / 2 ^ 1075"
proof (cases "r = 0")
  case True
  with assms show ?thesis by (simp add: round64_def)
next
  case False
  define E where "E = ulp_exponent r"
  define n where "n = round_even (r / 2 powr of_int E)"
  from assms False have d: "d = of_int n * 2 powr of_int E"
    by (simp add: round64_def Let_def E_def n_def split: if_splits)
  have "\<bar>of_int n - r / 2 powr of_int E\<bar> \<le> 1 / 2"
    unfolding n_def by (rule round_even_error)
  then have "\<bar>of_int n - r / 2 powr of_int E\<bar> * 2 powr of_int E \<le> 1 / 2 * 2 powr of_int E"
    by (rule mult_right_mono) simp
  moreover have "\<bar>of_int n - r / 2 powr of_int E\<bar> * 2 powr of_int E
      = \<bar>(of_int n - r / 2 powr of_int E) * 2 powr of_int E\<bar>"
    by (simp add: abs_mult)
  moreover have "(of_int n - r / 2 powr of_int E) * 2 powr of_int E = d - r"
    by (simp add: d left_diff_distrib)
  ultimately have err: "\<bar>d - r\<bar> \<le> 2 powr of_int E / 2" by simp
  from False have pos: "0 < \<bar>r\<bar>" by simp
  have "2 powr of_int E \<le> \<bar>r\<bar> / 2 ^ 52 + 1 / 2 ^ 1074"
  proof (cases "\<lfloor>log 2 \<bar>r\<bar>\<rfloor> - 52 \<le> - 1074")
    case True
    then have "E = - 1074" by (simp add: E_def ulp_exponent_def)
    then have "(2::real) powr of_int E = 1 / 2 ^ 1074" by (simp add: powr_neg_numeral)
    then show ?thesis by simp
  next
    case False
    then have E: "E = \<lfloor>log 2 \<bar>r\<bar>\<rfloor> - 52" by (simp add: E_def ulp_exponent_def)
    have "2 powr of_int \<lfloor>log 2 \<bar>r\<bar>\<rfloor> \<le> 2 powr log 2 \<bar>r\<bar>"
      by (simp del: powr_log_cancel)
    also have "\<dots> = \<bar>r\<bar>" using pos by simp
    finally have "2 powr of_int \<lfloor>log 2 \<bar>r\<bar>\<rfloor> \<le> \<bar>r\<bar>" .
    moreover have "(2::real) powr of_int E = 2 powr of_int \<lfloor>log 2 \<bar>r\<bar>\<rfloor> / 2 ^ 52"
      by (simp add: E powr_diff)
    ultimately have "2 powr of_int E \<le> \<bar>r\<bar> / 2 ^ 52"
      by (simp add: divide_right_mono)
    then show ?thesis by (simp add: add_increasing2)
  qed
  with err show ?thesis by simp
qed

text \<open>A real of magnitude \<open>2 ^ 1024\<close> or more rounds to an infinity.\<close>

lemma round64_overflow:
  assumes "2 ^ 1024 \<le> \<bar>r\<bar>"
  shows "round64 r = (if 0 < r then PInf else NInf)"
proof -
  define E where "E = ulp_exponent r"
  define n where "n = round_even (r / 2 powr of_int E)"
  from assms have pos: "0 < \<bar>r\<bar>" and nz: "r \<noteq> 0"
    by (smt (verit) zero_less_power)+
  have "1024 \<le> log 2 \<bar>r\<bar>"
    using assms pos by (simp add: le_log_iff)
  then have L: "1024 \<le> \<lfloor>log 2 \<bar>r\<bar>\<rfloor>" by (simp add: le_floor_iff)
  then have E: "E = \<lfloor>log 2 \<bar>r\<bar>\<rfloor> - 52" by (simp add: E_def ulp_exponent_def)
  have "2 powr of_int \<lfloor>log 2 \<bar>r\<bar>\<rfloor> \<le> 2 powr log 2 \<bar>r\<bar>"
    by (simp del: powr_log_cancel)
  also have "\<dots> = \<bar>r\<bar>" using pos by simp
  finally have low: "2 powr of_int \<lfloor>log 2 \<bar>r\<bar>\<rfloor> \<le> \<bar>r\<bar>" .
  have scale: "(2::real) powr of_int \<lfloor>log 2 \<bar>r\<bar>\<rfloor> = 2 ^ 52 * 2 powr of_int E"
    by (simp add: E powr_diff)
  have "(2::real) ^ 52 \<le> \<bar>r\<bar> / 2 powr of_int E"
    using low unfolding scale by (simp add: pos_le_divide_eq)
  also have "\<dots> = \<bar>r / 2 powr of_int E\<bar>" by simp
  finally have big: "(2::real) ^ 52 \<le> \<bar>r / 2 powr of_int E\<bar>" .
  have "(2::real) ^ 52 \<le> \<bar>of_int n\<bar>"
  proof (cases "0 \<le> r")
    case True
    with big have "(2::real) ^ 52 \<le> r / 2 powr of_int E" by simp
    then have "(2::int) ^ 52 \<le> \<lfloor>r / 2 powr of_int E\<rfloor>"
      by (simp add: le_floor_iff)
    then have "(2::int) ^ 52 \<le> n"
      unfolding n_def using round_even_ge_floor by (rule order_trans)
    then have "(2::real) ^ 52 \<le> of_int n"
      by (metis of_int_le_iff of_int_numeral of_int_power)
    then show ?thesis by simp
  next
    case False
    then have "r / 2 powr of_int E < 0" by (simp add: divide_neg_pos)
    with big have "r / 2 powr of_int E \<le> - (2 ^ 52)" by simp
    then have "\<lceil>r / 2 powr of_int E\<rceil> \<le> - (2 ^ 52)"
      by (simp add: ceiling_le_iff)
    with round_even_le_ceiling have "n \<le> - (2 ^ 52)"
      unfolding n_def by (rule order_trans)
    then have "of_int n \<le> - ((2::real) ^ 52)"
      by (metis of_int_le_iff of_int_minus of_int_numeral of_int_power)
    then show ?thesis by simp
  qed
  then have "(2::real) ^ 52 * 2 powr of_int E \<le> \<bar>real_of_int n\<bar> * 2 powr of_int E"
    by (rule mult_right_mono) simp
  with scale
  have "(2::real) powr of_int \<lfloor>log 2 \<bar>r\<bar>\<rfloor> \<le> \<bar>real_of_int n * 2 powr of_int E\<bar>"
    by (simp add: abs_mult)
  moreover have "(2::real) ^ 1024 \<le> 2 powr of_int \<lfloor>log 2 \<bar>r\<bar>\<rfloor>"
  proof -
    from L have "(1024::real) \<le> of_int \<lfloor>log 2 \<bar>r\<bar>\<rfloor>" by linarith
    then have "(2::real) powr 1024 \<le> 2 powr of_int \<lfloor>log 2 \<bar>r\<bar>\<rfloor>"
      by (rule powr_mono) simp
    moreover have "(2::real) powr 1024 = 2 ^ 1024" by simp
    ultimately show ?thesis by (simp only:)
  qed
  ultimately have "(2::real) ^ 1024 \<le> \<bar>real_of_int n * 2 powr of_int E\<bar>" by linarith
  with nz show ?thesis
    by (simp add: round64_def Let_def E_def n_def)
qed

text \<open>A real of magnitude below \<open>2 ^ - 1075\<close> rounds to zero.\<close>

lemma round64_underflow:
  assumes "\<bar>r\<bar> < 1 / 2 ^ 1075"
  shows "round64 r = Fin 0"
proof (cases "r = 0")
  case True
  then show ?thesis by simp
next
  case False
  then have pos: "0 < \<bar>r\<bar>" by simp
  have p: "(2::real) powr of_int (- 1075) = 1 / 2 ^ 1075"
    by (simp add: powr_neg_numeral)
  from assms have "\<bar>r\<bar> < 2 powr of_int (- 1075)" unfolding p .
  with pos have "\<lfloor>log 2 \<bar>r\<bar>\<rfloor> < - 1075" by (rule floor_log2_less)
  then have "\<lfloor>log 2 \<bar>r\<bar>\<rfloor> - 52 \<le> - 1074" by linarith
  then have E: "ulp_exponent r = - 1074" by (simp add: ulp_exponent_def)
  have q: "(2::real) powr of_int (- 1074) = 1 / 2 ^ 1074"
    by (simp add: powr_neg_numeral)
  have "(2::real) ^ 1075 = 2 * 2 ^ 1074" by (simp only: power_Suc [symmetric]) simp
  with assms have "\<bar>r\<bar> * 2 ^ 1074 < 1 / 2"
    by (simp add: field_simps)
  then have "\<bar>r * 2 ^ 1074\<bar> < 1 / 2" by (simp add: abs_mult)
  then have "round_even (r * 2 ^ 1074) = 0"
    unfolding round_even_def Let_def by (auto simp: abs_less_iff; linarith)
  then have "round_even (r / 2 powr of_int (- 1074)) = 0"
    unfolding q by simp
  with False E show ?thesis
    by (simp add: round64_def Let_def del: of_int_minus)
qed

text \<open>
  Every finite result of a rounding is a multiple of \<open>2 ^ - 1074\<close>, and the difference of two
  such multiples does not round to zero unless it is zero: a subtraction of doubles never
  loses the sign of the exact difference.
\<close>

lemma gridded_round64: "gridded (round64 r)"
proof (cases "round64 r")
  case (Fin d)
  show ?thesis
  proof (cases "r = 0")
    case True
    with Fin have "d = of_int 0 * 2 powr (- 1074)" by simp
    with Fin show ?thesis by (metis gridded.simps(1))
  next
    case False
    define E where "E = ulp_exponent r"
    define n where "n = round_even (r / 2 powr of_int E)"
    from Fin False have d: "d = of_int n * 2 powr of_int E"
      by (simp add: round64_def Let_def E_def n_def split: if_splits)
    have E: "- 1074 \<le> E" by (simp add: E_def ulp_exponent_def)
    have "(2::real) powr of_int E = 2 powr of_int (E + 1074) * 2 powr (- 1074)"
      by (simp flip: powr_add)
    also have "(2::real) powr of_int (E + 1074) = 2 ^ nat (E + 1074)"
      using E powr_int_diff [of "- 1074" E] by (simp add: powr_realpow [symmetric])
    finally have "d = of_int (n * 2 ^ nat (E + 1074)) * 2 powr (- 1074)"
      by (simp add: d)
    with Fin show ?thesis by (metis gridded.simps(1))
  qed
qed simp_all

lemma gridded_plus: "gridded (a + b)"
  by (cases a; cases b) (simp_all add: gridded_round64)

lemma gridded_minus: "gridded (a - b)"
  by (simp add: minus_number_def gridded_plus)

lemma is_double_gridded: "is_double r \<Longrightarrow> gridded (Fin r)"
  using gridded_round64 [of r] by (simp add: round64_representable)

lemma double_number_gridded: "double_number r \<Longrightarrow> gridded r"
  by (cases r) (simp_all add: is_double_gridded del: gridded.simps(1))

lemma round64_negative:
  assumes "r \<le> - (2 powr (- 1074))"
  shows "round64 r < 0"
proof -
  have pos: "0 < (2::real) powr (- 1074)" by simp
  with assms have neg: "r < 0" by linarith
  define E where "E = ulp_exponent r"
  define n where "n = round_even (r / 2 powr of_int E)"
  have "2 powr of_int E \<le> \<bar>r\<bar>"
  proof (cases "\<lfloor>log 2 \<bar>r\<bar>\<rfloor> - 52 \<le> - 1074")
    case True
    then have "E = - 1074" by (simp add: E_def ulp_exponent_def)
    with assms neg show ?thesis by simp
  next
    case False
    then have E: "E = \<lfloor>log 2 \<bar>r\<bar>\<rfloor> - 52" by (simp add: E_def ulp_exponent_def)
    have "real_of_int E \<le> log 2 \<bar>r\<bar>" unfolding E by simp linarith
    then have "2 powr of_int E \<le> 2 powr log 2 \<bar>r\<bar>"
      by (rule powr_mono) simp
    with neg show ?thesis by simp
  qed
  with neg have "r / 2 powr of_int E \<le> - 1"
    by (simp add: pos_divide_le_eq)
  then have "\<lceil>r / 2 powr of_int E\<rceil> \<le> - 1" by (simp add: ceiling_le_iff)
  with round_even_le_ceiling have "n \<le> - 1" unfolding n_def by (rule order_trans)
  then have "real_of_int n \<le> - 1" by linarith
  then have "real_of_int n * 2 powr of_int E \<le> - 1 * 2 powr of_int E"
    by (rule mult_right_mono) simp
  then have d: "real_of_int n * 2 powr of_int E < 0"
    by (smt (verit) powr_gt_zero mult_minus_left mult_1)
  from neg have "r \<noteq> 0" by simp
  with d neg show ?thesis
    by (simp add: round64_def Let_def E_def [symmetric] n_def [symmetric] zero_number_def)
qed

lemma gridded_less_minus:
  assumes "gridded (Fin a)" and "gridded (Fin b)" and "a < b"
  shows "Fin a - Fin b < 0"
proof -
  from assms(1,2) obtain k l :: int where a: "a = of_int k * 2 powr (- 1074)"
    and b: "b = of_int l * 2 powr (- 1074)" by auto
  from assms(3) have "k < l"
    unfolding a b by (simp add: mult_less_cancel_right)
  then have "real_of_int (k - l) \<le> - 1" by simp
  then have "real_of_int (k - l) * 2 powr (- 1074) \<le> - 1 * 2 powr (- 1074)"
    by (rule mult_right_mono) simp
  then have "a - b \<le> - (2 powr (- 1074))"
    by (simp add: a b left_diff_distrib)
  then have "round64 (a - b) < 0" by (rule round64_negative)
  then show ?thesis by (simp add: minus_number_def)
qed

lemma lower_bound_from_test:
  assumes "\<not> p - r < 0" and "gridded p" and "double_number r" and "p \<noteq> NaN"
  shows "r \<le> p"
proof -
  from assms(3) obtain \<rho> where r: "r = Fin \<rho>" and d: "is_double \<rho>"
    by (cases r) simp_all
  show ?thesis
  proof (cases p)
    case (Fin \<xi>)
    have "\<not> \<xi> < \<rho>"
    proof
      assume "\<xi> < \<rho>"
      with assms(2) is_double_gridded [OF d] have "Fin \<xi> - Fin \<rho> < 0"
        unfolding Fin by (rule gridded_less_minus)
      with assms(1) show False by (simp add: Fin r)
    qed
    then show ?thesis by (simp add: Fin r)
  next
    case NInf
    with assms(1) show ?thesis by (simp add: r minus_number_def zero_number_def)
  qed (use assms(4) in \<open>simp_all add: r\<close>)
qed

subsection \<open>Operations\<close>

lemma times_NaN_right: "a * NaN = NaN"
  by (cases a) simp_all


lemma or_zero_Some: "v \<noteq> NaN \<Longrightarrow> or_zero (Some v) = v"
  by (simp add: zero_number_def)

lemma self_minus: "a - a = Fin 0 \<or> a - a = NaN"
  by (cases a) (simp_all add: minus_number_def)

lemma self_minus_not_negative: "\<not> a - a < (0::number)"
  using self_minus [of a] by (auto simp: zero_number_def)

lemma is_finD: "is_fin a \<Longrightarrow> \<exists>r. a = Fin r"
  by (cases a) simp_all



lemma plus_error:
  assumes "a + b = Fin d"
  shows "\<exists>p q. a = Fin p \<and> b = Fin q \<and> \<bar>d - (p + q)\<bar> \<le> \<bar>p + q\<bar> / 2 ^ 53 + 1 / 2 ^ 1075"
proof -
  from assms obtain p q where a: "a = Fin p" and b: "b = Fin q"
    by (cases a; cases b) simp_all
  with assms have "round64 (p + q) = Fin d" by simp
  from round64_error [OF this] a b show ?thesis by blast
qed

lemma minus_error:
  assumes "a - b = Fin d"
  shows "\<exists>p q. a = Fin p \<and> b = Fin q \<and> \<bar>d - (p - q)\<bar> \<le> \<bar>p - q\<bar> / 2 ^ 53 + 1 / 2 ^ 1075"
proof -
  from assms have "a + (- b) = Fin d" by (simp add: minus_number_def)
  from plus_error [OF this] obtain p q where a: "a = Fin p" and b: "- b = Fin q"
    and e: "\<bar>d - (p + q)\<bar> \<le> \<bar>p + q\<bar> / 2 ^ 53 + 1 / 2 ^ 1075" by blast
  from b have "b = Fin (- q)" by (cases b) simp_all
  with a e show ?thesis by auto
qed

lemma divide_error:
  assumes "a / Fin m = Fin d" and "m \<noteq> 0"
  shows "\<exists>p. a = Fin p \<and> \<bar>d - p / m\<bar> \<le> \<bar>p / m\<bar> / 2 ^ 53 + 1 / 2 ^ 1075"
proof -
  from assms obtain p where a: "a = Fin p"
    by (cases a) (simp_all split: if_splits)
  with assms have "round64 (p / m) = Fin d" by simp
  from round64_error [OF this] a show ?thesis by blast
qed

lemma times_error:
  assumes "Fin a * Fin b = Fin d"
  shows "\<bar>d - a * b\<bar> \<le> \<bar>a * b\<bar> / 2 ^ 53 + 1 / 2 ^ 1075"
proof -
  from assms have "round64 (a * b) = Fin d" by simp
  then show ?thesis by (rule round64_error)
qed

text \<open>The literals of the source.\<close>

lemma frictionCoefficient_value: "frictionCoefficient = Fin (8106479329266893 / 2 ^ 53)"
  unfolding frictionCoefficient_def literal_def
  using round64_eval [of "-1" "9 / 10" "-53" 8106479329266893]
  by (simp add: powr_neg_numeral round_even_def)

lemma literal_tenth: "literal (1 / 10) = Fin (7205759403792794 / 2 ^ 56)"
  unfolding literal_def
  using round64_eval [of "-4" "1 / 10" "-56" 7205759403792794]
  by (simp add: powr_neg_numeral round_even_def)

lemma literal_gravity: "literal (49 / 5) = Fin (2758454771764429 / 2 ^ 48)"
  unfolding literal_def
  using round64_eval [of 3 "49 / 5" "-49" 5516909543528858]
  by (simp add: powr_neg_numeral round_even_def)

lemma literal_elasticity: "literal (7 / 10) = Fin (3152519739159347 / 2 ^ 52)"
  unfolding literal_def
  using round64_eval [of "-1" "7 / 10" "-53" 6305039478318694]
  by (simp add: powr_neg_numeral round_even_def)

section \<open>Properties of the body store\<close>

lemma clearBodies_size: "length (bodiesRef (clearBodies eng)) = 0"
  by (simp add: clearBodies_def)

lemma addBody_appends:
  "bodiesRef (addBody rnd newBody eng) =
     bodiesRef eng @ [NewBody.extend newBody (Body.fields (substr rnd 2 9))]"
  by (simp add: addBody_def)

lemma addBody_size: "length (bodiesRef (addBody rnd newBody eng)) = length (bodiesRef eng) + 1"
  by (simp add: addBody_def)

text \<open>
  Claim C9 asks that the identifier \<open>addBody\<close> assigns is non-empty and differs from the
  identifier of every body already stored. The identifier is a function of the random draw
  alone: two equal draws store two bodies under one identifier, and the draw \<open>0\<close>, printed
  as \<open>0\<close>, leaves nothing after index two, so the identifier is empty.
\<close>

theorem addBody_identifier_not_fresh:
  "map id_body (bodiesRef (addBody ''0.4fzyo82mvyr'' initial_body
      (addBody ''0.4fzyo82mvyr'' initial_body demo_engine))) = [''4fzyo82mv'', ''4fzyo82mv'']
   \<and> map id_body (bodiesRef (addBody ''0'' initial_body demo_engine)) = [[]]"
  by (simp add: demo_defs initial_body_def addBody_def substr_def NewBody.defs Body.defs)

section \<open>Properties of the integrator\<close>

lemma mass_cancels_exact:
  assumes "0 < m" and "is_double g" and "is_double (m * g)"
  shows "(Fin m * Fin g) / Fin m = Fin g"
  using assms by (simp add: round64_representable)

lemma zero_over_mass: "m \<noteq> 0 \<Longrightarrow> (Fin m * 0) / Fin m = 0"
  by (simp add: zero_number_def)

lemma quotient_error_bound:
  fixes m g F a eps eta :: real
  assumes m: "0 < m"
    and F: "\<bar>F - m * g\<bar> \<le> \<bar>m * g\<bar> * eps + eta"
    and a: "\<bar>a - F / m\<bar> \<le> \<bar>F / m\<bar> * eps + eta"
  shows "\<bar>a - g\<bar> \<le> (\<bar>g\<bar> + \<bar>F\<bar> / m) * eps + (1 + 1 / m) * eta"
proof -
  have "F / m - g = (F - m * g) / m" using m by (simp add: field_simps)
  then have "\<bar>F / m - g\<bar> = \<bar>F - m * g\<bar> / m" using m by (simp add: abs_divide)
  also have "\<dots> \<le> (\<bar>m * g\<bar> * eps + eta) / m"
    using F m by (simp add: divide_right_mono)
  also have "\<dots> = \<bar>g\<bar> * eps + eta / m"
    using m by (simp add: abs_mult add_divide_distrib)
  finally have 1: "\<bar>F / m - g\<bar> \<le> \<bar>g\<bar> * eps + eta / m" .
  have 2: "\<bar>F / m\<bar> = \<bar>F\<bar> / m" using m by (simp add: abs_divide)
  have "\<bar>a - g\<bar> \<le> \<bar>a - F / m\<bar> + \<bar>F / m - g\<bar>" by linarith
  also have "\<dots> \<le> (\<bar>F\<bar> / m * eps + eta) + (\<bar>g\<bar> * eps + eta / m)"
    using a 1 unfolding 2 by linarith
  also have "\<dots> = (\<bar>g\<bar> + \<bar>F\<bar> / m) * eps + (1 + 1 / m) * eta"
    by (simp add: algebra_simps)
  finally show ?thesis .
qed

lemma acceleration_error:
  assumes m: "0 < m" and f: "is_fin ((Fin m * Fin g) / Fin m)"
  shows "\<bar>val ((Fin m * Fin g) / Fin m) - g\<bar> \<le> acceleration_tolerance m g (val (Fin m * Fin g))"
proof -
  from f obtain a where a: "(Fin m * Fin g) / Fin m = Fin a" by (auto dest: is_finD)
  from m have nz: "m \<noteq> 0" by simp
  from divide_error [OF a nz] obtain F where F: "Fin m * Fin g = Fin F"
    and e1: "\<bar>a - F / m\<bar> \<le> \<bar>F / m\<bar> / 2 ^ 53 + 1 / 2 ^ 1075" by blast
  note e2 = times_error [OF F]
  have "\<bar>a - g\<bar> \<le> (\<bar>g\<bar> + \<bar>F\<bar> / m) * (1 / 2 ^ 53) + (1 + 1 / m) * (1 / 2 ^ 1075)"
    using m
    by (rule quotient_error_bound)
      (use e1 e2 in \<open>simp_all only: times_divide_eq_right mult_1_right\<close>)
  then have "\<bar>a - g\<bar> \<le> acceleration_tolerance m g F"
    by (simp only: acceleration_tolerance_def times_divide_eq_right mult_1_right)
  then show ?thesis
    unfolding a unfolding F val.simps .
qed

lemma default_acceleration:
  assumes "mass body = Fin 10"
  shows "accelerationY demo_engine body = Fin (2758454771764429 / 2 ^ 48)"
proof -
  have p: "Fin 10 * Fin (2758454771764429 / 2 ^ 48) = Fin 98"
    using round64_eval [of 6 "10 * (2758454771764429 / 2 ^ 48)" "-46" 6896136929411072]
    by (simp add: powr_neg_numeral round_even_def)
  have q: "Fin 98 / Fin 10 = Fin (2758454771764429 / 2 ^ 48)"
    using round64_eval [of 3 "98 / 10" "-49" 5516909543528858]
    by (simp add: powr_neg_numeral round_even_def)
  have "accelerationY demo_engine body = Fin 10 * Fin (2758454771764429 / 2 ^ 48) / Fin 10"
    unfolding accelerationY_def GRAVITY_def Let_def assms
    by (simp add: demo_engine_def literal_gravity)
  then show ?thesis by (simp only: p q)
qed

lemma default_accelerationX:
  assumes "mass body = Fin 10"
  shows "accelerationX demo_engine body = Fin 0"
  by (simp add: accelerationX_def GRAVITY_def assms zero_number_def)

text \<open>
  Claim C6 as stated: for every body of positive mass the acceleration is the gravity vector
  and the new velocity is \<open>velocity + gravity * dt\<close>. The engine computes
  \<open>(mass * gravity) / mass\<close> in doubles. With mass \<open>3\<close> and gravity \<open>0.1\<close> the product rounds
  to \<open>0.30000000000000004\<close> and the quotient to \<open>0.10000000000000002\<close>, one unit in the last
  place above the gravity; with \<open>dt = 1\<close> the new vertical velocity is that number and not the
  gravity.
\<close>

theorem mass_three_counterexample:
  "mass three_body = Fin 3 \<and> \<not> frictionEnabled light_engine \<and>
   y (GRAVITY light_engine) = Fin (7205759403792794 / 2 ^ 56) \<and>
   accelerationY light_engine three_body = Fin (7205759403792795 / 2 ^ 56) \<and>
   y (velocity (integrate light_engine (Fin 1) three_body)) = Fin (7205759403792795 / 2 ^ 56)"
proof -
  have g: "gravityMagnitude light_engine = Fin (7205759403792794 / 2 ^ 56)"
    by (simp add: light_engine_def literal_tenth)
  have p: "Fin 3 * Fin (7205759403792794 / 2 ^ 56) = Fin (5404319552844596 / 2 ^ 54)"
    using round64_eval [of "-2" "3 * (7205759403792794 / 2 ^ 56)" "-54" 5404319552844596]
    by (simp add: powr_neg_numeral round_even_def)
  have q: "Fin (5404319552844596 / 2 ^ 54) / Fin 3 = Fin (7205759403792795 / 2 ^ 56)"
    using round64_eval [of "-4" "5404319552844596 / 2 ^ 54 / 3" "-56" 7205759403792795]
    by (simp add: powr_neg_numeral round_even_def)
  have "accelerationY light_engine three_body
      = Fin 3 * Fin (7205759403792794 / 2 ^ 56) / Fin 3"
    unfolding accelerationY_def GRAVITY_def Let_def g by (simp add: three_body_def)
  then have a: "accelerationY light_engine three_body = Fin (7205759403792795 / 2 ^ 56)"
    by (simp only: p q)
  have r: "round64 (7205759403792795 / 2 ^ 56) = Fin (7205759403792795 / 2 ^ 56)"
    by (rule round64_representable, rule is_double_fraction) simp_all
  have "y (velocity (integrate light_engine (Fin 1) three_body)) = Fin (7205759403792795 / 2 ^ 56)"
    unfolding integrate_def Let_def a
    using r by (simp add: light_engine_def three_body_def)
  with g a show ?thesis
    by (simp add: GRAVITY_def three_body_def light_engine_def)
qed

text \<open>
  A finite mass can also make the product overflow: with mass \<open>2 ^ 1023\<close> and the default
  gravity the acceleration, and the velocity after a tick, are infinite.
\<close>

lemma huge_mass_overflow:
  "is_double (2 ^ 1023) \<and> accelerationY demo_engine huge_body = PInf \<and>
   y (velocity (integrate demo_engine (Fin (1 / 64)) huge_body)) = PInf"
proof -
  have d: "is_double (2 ^ 1023)"
    using is_double_scaled [of "2 ^ 52" 971] by simp
  have r: "round64 (2 ^ 1023 * (2758454771764429 / 2 ^ 48)) = PInf"
    using round64_overflow [of "2 ^ 1023 * (2758454771764429 / 2 ^ 48)"] by simp
  have a: "accelerationY demo_engine huge_body = PInf"
    unfolding accelerationY_def GRAVITY_def Let_def
    using r by (simp add: demo_engine_def huge_body_def literal_gravity)
  have "y (velocity (integrate demo_engine (Fin (1 / 64)) huge_body)) = PInf"
    unfolding integrate_def Let_def a
    by (simp add: demo_engine_def demo_canvas_def huge_body_def against_wall_def
        number_defs double_simps)
  with d a show ?thesis by simp
qed

text \<open>
  Claim C6 as amended: for a body of finite positive mass and with friction disabled, the
  horizontal acceleration is the horizontal gravity (zero); the vertical acceleration is
  the gravity whenever the gravity and the product \<open>mass * gravity\<close> are doubles, so that
  neither operation rounds, and whenever it is finite it differs from the gravity by at
  most the rounding error of the product and of the quotient; the new velocity is
  \<open>velocity + acceleration * dt\<close> with this computed acceleration, and the new position is
  \<open>position + velocity' * dt\<close> with the velocity already updated.
\<close>

theorem integrate_semi_implicit_euler:
  assumes "mass body = Fin m" and "0 < m" and "\<not> frictionEnabled eng"
  shows "accelerationX eng body = x (GRAVITY eng) \<and>
         (\<forall>g. gravityMagnitude eng = Fin g \<and> is_double g \<and> is_double (m * g) \<longrightarrow>
            accelerationY eng body = y (GRAVITY eng)) \<and>
         (\<forall>g. gravityMagnitude eng = Fin g \<and> is_fin (accelerationY eng body) \<longrightarrow>
            \<bar>val (accelerationY eng body) - g\<bar>
              \<le> acceleration_tolerance m g (val (mass body * gravityMagnitude eng))) \<and>
         velocity (integrate eng deltaTime body) =
           \<lparr>x = x (velocity body) + accelerationX eng body * deltaTime,
            y = y (velocity body) + accelerationY eng body * deltaTime\<rparr> \<and>
         position (integrate eng deltaTime body) =
           \<lparr>x = x (position body) + x (velocity (integrate eng deltaTime body)) * deltaTime,
            y = y (position body) + y (velocity (integrate eng deltaTime body)) * deltaTime\<rparr>"
proof -
  have ax: "accelerationX eng body = x (GRAVITY eng)"
    using assms(1,2) by (simp add: accelerationX_def GRAVITY_def zero_over_mass)
  have ay: "accelerationY eng body = y (GRAVITY eng)"
    if "gravityMagnitude eng = Fin g" and "is_double g" and "is_double (m * g)" for g
    using assms(1,2) that by (simp add: accelerationY_def GRAVITY_def round64_representable)
  have tol: "\<bar>val (accelerationY eng body) - g\<bar>
      \<le> acceleration_tolerance m g (val (mass body * gravityMagnitude eng))"
    if g: "gravityMagnitude eng = Fin g" and f: "is_fin (accelerationY eng body)" for g
  proof -
    have a: "accelerationY eng body = (Fin m * Fin g) / Fin m"
      by (simp add: accelerationY_def GRAVITY_def Let_def assms(1) g del: times_number.simps)
    from f have "is_fin ((Fin m * Fin g) / Fin m)" unfolding a .
    from acceleration_error [OF assms(2) this] show ?thesis
      unfolding a assms(1) g .
  qed
  have "velocity (integrate eng deltaTime body) =
           \<lparr>x = x (velocity body) + accelerationX eng body * deltaTime,
            y = y (velocity body) + accelerationY eng body * deltaTime\<rparr>"
    using assms(3) by (simp add: integrate_def Let_def)
  moreover have "position (integrate eng deltaTime body) =
           \<lparr>x = x (position body) + x (velocity (integrate eng deltaTime body)) * deltaTime,
            y = y (position body) + y (velocity (integrate eng deltaTime body)) * deltaTime\<rparr>"
    using assms(3) by (simp add: integrate_def Let_def)
  ultimately show ?thesis using ax ay tol by blast
qed

lemma falling_body_integrated:
  shows "accelerationX calm_engine falling_body = Fin 0"
    and "accelerationY calm_engine falling_body = Fin (5 / 4)"
    and "velocity (integrate calm_engine (Fin (1 / 2)) falling_body) =
       \<lparr>x = Fin 10, y = Fin (5 / 8)\<rparr>"
    and "position (integrate calm_engine (Fin (1 / 2)) falling_body) =
       \<lparr>x = Fin 405, y = Fin (805 / 16)\<rparr>"
proof -
  have f1: "round64 (5 / 2) = Fin (5 / 2)"
    using round64_eval [of "1" "5 / 2" "-51" "5629499534213120"]
    by (simp add: powr_neg_numeral round_even_def)
  have f2: "round64 (5 / 4) = Fin (5 / 4)"
    using round64_eval [of "0" "5 / 4" "-52" "5629499534213120"]
    by (simp add: powr_neg_numeral round_even_def)
  have f3: "round64 (10) = Fin (10)"
    using round64_eval [of "3" "10" "-49" "5629499534213120"]
    by (simp add: powr_neg_numeral round_even_def)
  have f4: "round64 (5 / 8) = Fin (5 / 8)"
    using round64_eval [of "-1" "5 / 8" "-53" "5629499534213120"]
    by (simp add: powr_neg_numeral round_even_def)
  have f5: "round64 (70) = Fin (70)"
    using round64_eval [of "6" "70" "-46" "4925812092436480"]
    by (simp add: powr_neg_numeral round_even_def)
  have f6: "round64 (599) = Fin (599)"
    using round64_eval [of "9" "599" "-43" "5268859720302592"]
    by (simp add: powr_neg_numeral round_even_def)
  have f7: "round64 (420) = Fin (420)"
    using round64_eval [of "8" "420" "-44" "7388718138654720"]
    by (simp add: powr_neg_numeral round_even_def)
  have f8: "round64 (799) = Fin (799)"
    using round64_eval [of "9" "799" "-43" "7028078324744192"]
    by (simp add: powr_neg_numeral round_even_def)
  have f9: "round64 (380) = Fin (380)"
    using round64_eval [of "8" "380" "-44" "6685030696878080"]
    by (simp add: powr_neg_numeral round_even_def)
  have f10: "round64 (5) = Fin (5)"
    using round64_eval [of "2" "5" "-50" "5629499534213120"]
    by (simp add: powr_neg_numeral round_even_def)
  have f11: "round64 (405) = Fin (405)"
    using round64_eval [of "8" "405" "-44" "7124835347988480"]
    by (simp add: powr_neg_numeral round_even_def)
  have f12: "round64 (5 / 16) = Fin (5 / 16)"
    using round64_eval [of "-2" "5 / 16" "-54" "5629499534213120"]
    by (simp add: powr_neg_numeral round_even_def)
  have f13: "round64 (805 / 16) = Fin (805 / 16)"
    using round64_eval [of "5" "805 / 16" "-47" "7080854882877440"]
    by (simp add: powr_neg_numeral round_even_def)
  note f = f1 [simplified] f2 [simplified] f3 [simplified] f4 [simplified] f5 [simplified] f6 [simplified] f7 [simplified] f8 [simplified] f9 [simplified] f10 [simplified] f11 [simplified] f12 [simplified] f13 [simplified]
  show "accelerationX calm_engine falling_body = Fin 0"
    and "accelerationY calm_engine falling_body = Fin (5 / 4)"
    and "velocity (integrate calm_engine (Fin (1 / 2)) falling_body) =
       \<lparr>x = Fin 10, y = Fin (5 / 8)\<rparr>"
    and "position (integrate calm_engine (Fin (1 / 2)) falling_body) =
       \<lparr>x = Fin 405, y = Fin (805 / 16)\<rparr>"
    by (simp_all add: integrate_def accelerationX_def accelerationY_def GRAVITY_def Let_def
        calm_engine_def falling_body_def number_defs f)
qed

theorem integrate_semi_implicit_euler_witness:
  "mass falling_body = Fin 2 \<and> (0::real) < 2 \<and> \<not> frictionEnabled calm_engine \<and>
   gravityMagnitude calm_engine = Fin (5 / 4) \<and> is_double (5 / 4) \<and> is_double (2 * (5 / 4)) \<and>
   accelerationX calm_engine falling_body = Fin 0 \<and>
   accelerationY calm_engine falling_body = Fin (5 / 4) \<and>
   velocity (integrate calm_engine (Fin (1 / 2)) falling_body) = \<lparr>x = Fin 10, y = Fin (5 / 8)\<rparr> \<and>
   position (integrate calm_engine (Fin (1 / 2)) falling_body) =
     \<lparr>x = Fin 405, y = Fin (805 / 16)\<rparr>"
proof -
  have m: "mass falling_body = Fin 2" "(0::real) < 2" "\<not> frictionEnabled calm_engine"
    by (simp_all add: falling_body_def calm_engine_def)
  have g: "gravityMagnitude calm_engine = Fin (5 / 4)" by (simp add: calm_engine_def)
  have d: "is_double (5 / 4)" "is_double (2 * (5 / 4))"
    using is_double_ratio [of 5 2] is_double_ratio [of 5 1] by simp_all
  from integrate_semi_implicit_euler [OF m, of "Fin (1 / 2)"] g d
  have "accelerationX calm_engine falling_body = x (GRAVITY calm_engine)"
    and "accelerationY calm_engine falling_body = y (GRAVITY calm_engine)"
    by blast+
  then have "accelerationX calm_engine falling_body = Fin 0"
    and "accelerationY calm_engine falling_body = Fin (5 / 4)"
    by (simp_all add: GRAVITY_def calm_engine_def zero_number_def)
  with m g d falling_body_integrated(3,4) show ?thesis by blast
qed

text \<open>
  Claim C7 as stated: the horizontal velocity is damped exactly when the lower edge of the
  body touches or exceeds the floor. The sample body is half a unit above the floor of the
  sample canvas, and its horizontal velocity is damped from \<open>10\<close> to \<open>9\<close> all the same.
\<close>

theorem friction_above_floor_counterexample:
  "\<not> (height demo_canvas \<le> y (position hover_body) + radius hover_body) \<and>
   x (velocity hover_body) + accelerationX demo_engine hover_body * Fin (1 / 64) = Fin 10 \<and>
   x (velocity (integrate demo_engine (Fin (1 / 64)) hover_body)) = Fin 9"
proof -
  have s: "y (position hover_body) + radius hover_body = Fin (1199 / 2)"
    by (simp add: demo_defs double_simps is_double_half)
  have a: "accelerationX demo_engine hover_body = Fin 0"
    by (simp add: accelerationX_def GRAVITY_def demo_defs number_defs double_simps)
  have u: "x (velocity hover_body) + accelerationX demo_engine hover_body * Fin (1 / 64) = Fin 10"
    unfolding a by (simp add: demo_defs double_simps)
  have g: "on_ground demo_engine hover_body"
    unfolding on_ground_def s by (simp add: demo_defs number_defs double_simps)
  have t: "Fin 10 * frictionCoefficient = Fin 9"
    unfolding frictionCoefficient_value
    using round64_eval [of 3 "10 * (8106479329266893 / 2 ^ 53)" "-49" 5066549580791808]
    by (simp add: powr_neg_numeral round_even_def)
  have "x (velocity (integrate demo_engine (Fin (1 / 64)) hover_body)) = Fin 9"
    using g u t by (simp add: integrate_def Let_def demo_engine_def)
  with s u show ?thesis by (simp add: demo_defs)
qed

text \<open>
  Claim C7 as amended: with friction enabled, the horizontal velocity is multiplied by the
  coefficient, the double nearest to \<open>0.9\<close>, exactly when the test
  \<open>position.y + radius \<ge> height - 1\<close> succeeds on the position before the move, and the
  vertical velocity exactly when \<open>position.x + radius \<ge> width - 1\<close> or
  \<open>position.x - radius \<le> 1\<close> succeeds. Sums, differences and products are the rounded ones
  of the engine: the tests compare the doubles nearest to the exact sums, within one unit
  of the floor or of a wall.
\<close>

theorem friction_within_one_unit:
  assumes "frictionEnabled eng" and "canvasRef eng = Some canvas"
    and "height canvas \<noteq> NaN" and "width canvas \<noteq> NaN"
  shows "x (velocity (integrate eng deltaTime body)) =
           (if height canvas - 1 \<le> y (position body) + radius body
            then (x (velocity body) + accelerationX eng body * deltaTime) * frictionCoefficient
            else x (velocity body) + accelerationX eng body * deltaTime) \<and>
         y (velocity (integrate eng deltaTime body)) =
           (if width canvas - 1 \<le> x (position body) + radius body
               \<or> x (position body) - radius body \<le> 1
            then (y (velocity body) + accelerationY eng body * deltaTime) * frictionCoefficient
            else y (velocity body) + accelerationY eng body * deltaTime)"
  using assms
  by (simp add: integrate_def Let_def on_ground_def against_wall_def or_zero_Some
      del: or_zero.simps)

text \<open>
  The lower edge of the sample body is \<open>1 + 2 ^ - 44\<close> above the floor. The sum
  \<open>position.y + radius\<close> rounds to \<open>599\<close>, the test succeeds and the horizontal velocity
  is damped from \<open>10\<close> to \<open>9\<close>.
\<close>

lemma near_floor_body_integrated:
  shows "y (position near_floor_body) + radius near_floor_body = Fin 599"
    and "accelerationX demo_engine near_floor_body = Fin 0"
    and "accelerationY demo_engine near_floor_body = Fin (2758454771764429 / 2 ^ 48)"
    and "velocity (integrate demo_engine (Fin (1 / 64)) near_floor_body) =
       \<lparr>x = Fin 9, y = Fin (2758454771764429 / 2 ^ 54)\<rparr>"
proof -
  have f1: "round64 (13792273858822145 / 2 ^ 47) = Fin (98)"
    using round64_eval [of "6" "13792273858822145 / 2 ^ 47" "-46" "6896136929411072"]
    by (simp add: powr_neg_numeral round_even_def)
  have f2: "round64 (49 / 5) = Fin (2758454771764429 / 2 ^ 48)"
    using round64_eval [of "3" "49 / 5" "-49" "5516909543528858"]
    by (simp add: powr_neg_numeral round_even_def)
  have f3: "round64 (10) = Fin (10)"
    using round64_eval [of "3" "10" "-49" "5629499534213120"]
    by (simp add: powr_neg_numeral round_even_def)
  have f4: "round64 (2758454771764429 / 2 ^ 54) = Fin (2758454771764429 / 2 ^ 54)"
    using round64_eval [of "-3" "2758454771764429 / 2 ^ 54" "-55" "5516909543528858"]
    by (simp add: powr_neg_numeral round_even_def)
  have f5: "round64 (10537719440605183 / 2 ^ 44) = Fin (599)"
    using round64_eval [of "9" "10537719440605183 / 2 ^ 44" "-43" "5268859720302592"]
    by (simp add: powr_neg_numeral round_even_def)
  have f6: "round64 (599) = Fin (599)"
    using round64_eval [of "9" "599" "-43" "5268859720302592"]
    by (simp add: powr_neg_numeral round_even_def)
  have f7: "round64 (500) = Fin (500)"
    using round64_eval [of "8" "500" "-44" "8796093022208000"]
    by (simp add: powr_neg_numeral round_even_def)
  have f8: "round64 (799) = Fin (799)"
    using round64_eval [of "9" "799" "-43" "7028078324744192"]
    by (simp add: powr_neg_numeral round_even_def)
  have f9: "round64 (300) = Fin (300)"
    using round64_eval [of "8" "300" "-44" "5277655813324800"]
    by (simp add: powr_neg_numeral round_even_def)
  have f10: "round64 (40532396646334465 / 2 ^ 52) = Fin (9)"
    using round64_eval [of "3" "40532396646334465 / 2 ^ 52" "-49" "5066549580791808"]
    by (simp add: powr_neg_numeral round_even_def)
  have f11: "round64 (9 / 64) = Fin (9 / 64)"
    using round64_eval [of "-3" "9 / 64" "-55" "5066549580791808"]
    by (simp add: powr_neg_numeral round_even_def)
  have f12: "round64 (25609 / 64) = Fin (25609 / 64)"
    using round64_eval [of "8" "25609 / 64" "-44" "7039348318928896"]
    by (simp add: powr_neg_numeral round_even_def)
  have f13: "round64 (2758454771764429 / 2 ^ 60) = Fin (2758454771764429 / 2 ^ 60)"
    using round64_eval [of "-9" "2758454771764429 / 2 ^ 60" "-61" "5516909543528858"]
    by (simp add: powr_neg_numeral round_even_def)
  have f14: "round64 (575310589253588339917 / 2 ^ 60) = Fin (2194635731710771 / 2 ^ 42)"
    using round64_eval [of "8" "575310589253588339917 / 2 ^ 60" "-44" "8778542926843084"]
    by (simp add: powr_neg_numeral round_even_def)
  note f = f1 [simplified] f2 [simplified] f3 [simplified] f4 [simplified] f5 [simplified] f6 [simplified] f7 [simplified] f8 [simplified] f9 [simplified] f10 [simplified] f11 [simplified] f12 [simplified] f13 [simplified] f14 [simplified]
  show "y (position near_floor_body) + radius near_floor_body = Fin 599"
    and "accelerationX demo_engine near_floor_body = Fin 0"
    and "accelerationY demo_engine near_floor_body = Fin (2758454771764429 / 2 ^ 48)"
    and "velocity (integrate demo_engine (Fin (1 / 64)) near_floor_body) =
       \<lparr>x = Fin 9, y = Fin (2758454771764429 / 2 ^ 54)\<rparr>"
    by (simp_all add: integrate_def accelerationX_def accelerationY_def GRAVITY_def Let_def
        on_ground_def against_wall_def demo_engine_def demo_canvas_def near_floor_body_def
        literal_gravity frictionCoefficient_value number_defs f)
qed

theorem friction_within_one_unit_witness:
  "frictionEnabled demo_engine \<and> canvasRef demo_engine = Some demo_canvas \<and>
   height demo_canvas \<noteq> NaN \<and> width demo_canvas \<noteq> NaN \<and>
   y (position near_floor_body) + radius near_floor_body = Fin 599 \<and>
   height demo_canvas - 1 = Fin 599 \<and>
   x (velocity near_floor_body) + accelerationX demo_engine near_floor_body * Fin (1 / 64) = Fin 10 \<and>
   x (velocity (integrate demo_engine (Fin (1 / 64)) near_floor_body)) = Fin 9 \<and>
   y (velocity (integrate demo_engine (Fin (1 / 64)) near_floor_body))
     = y (velocity near_floor_body) + accelerationY demo_engine near_floor_body * Fin (1 / 64)"
proof -
  note P = near_floor_body_integrated
  have h: "frictionEnabled demo_engine" "canvasRef demo_engine = Some demo_canvas"
    "height demo_canvas \<noteq> NaN" "width demo_canvas \<noteq> NaN"
    by (simp_all add: demo_engine_def demo_canvas_def)
  have l: "height demo_canvas - 1 = Fin 599"
    by (simp add: demo_canvas_def number_defs double_simps)
  have w: "\<not> (width demo_canvas - 1 \<le> x (position near_floor_body) + radius near_floor_body
       \<or> x (position near_floor_body) - radius near_floor_body \<le> 1)"
    by (simp add: demo_canvas_def near_floor_body_def number_defs double_simps)
  have u: "x (velocity near_floor_body) + accelerationX demo_engine near_floor_body * Fin (1 / 64)
      = Fin 10"
    unfolding P by (simp add: near_floor_body_def double_simps)
  from friction_within_one_unit [OF h, of "Fin (1 / 64)" near_floor_body] w
  have "y (velocity (integrate demo_engine (Fin (1 / 64)) near_floor_body))
     = y (velocity near_floor_body) + accelerationY demo_engine near_floor_body * Fin (1 / 64)"
    by simp
  moreover have "x (velocity (integrate demo_engine (Fin (1 / 64)) near_floor_body)) = Fin 9"
    unfolding P by simp
  ultimately show ?thesis using h l u P(1) by blast
qed

section \<open>Collision response for one pair\<close>

lemma mass_resolve_pair:
  "mass (fst (resolve_pair eng bodyA bodyB)) = mass bodyA"
  "mass (snd (resolve_pair eng bodyA bodyB)) = mass bodyB"
  by (simp_all add: resolve_pair_def Let_def)

lemma resolve_pair_velocity:
  assumes "distance bodyA bodyB < radius bodyA + radius bodyB" and "dotProduct bodyA bodyB < 0"
  shows "velocity (fst (resolve_pair eng bodyA bodyB)) =
           \<lparr>x = x (velocity bodyA) - impulseX eng bodyA bodyB / mass bodyA,
            y = y (velocity bodyA) - impulseY eng bodyA bodyB / mass bodyA\<rparr>"
    and "velocity (snd (resolve_pair eng bodyA bodyB)) =
           \<lparr>x = x (velocity bodyB) + impulseX eng bodyA bodyB / mass bodyB,
            y = y (velocity bodyB) + impulseY eng bodyA bodyB / mass bodyB\<rparr>"
  using assms by (simp_all add: resolve_pair_def Let_def)

lemma coincident_dx: "a - a = Fin 0 \<Longrightarrow> pow2 (a - a) = Fin 0"
  by (simp add: pow2_def)

lemma coincident_not_resolved:
  assumes "position bodyA = position bodyB"
  shows "\<not> distance bodyA bodyB < radius bodyA + radius bodyB \<or> dotProduct bodyA bodyB = NaN"
proof -
  let ?dx = "x (position bodyA) - x (position bodyB)"
  let ?dy = "y (position bodyA) - y (position bodyB)"
  from assms have dx: "?dx = Fin 0 \<or> ?dx = NaN" and dy: "?dy = Fin 0 \<or> ?dy = NaN"
    using self_minus by simp_all
  show ?thesis
  proof (cases "?dx = Fin 0 \<and> ?dy = Fin 0")
    case True
    then have d: "distance bodyA bodyB = Fin 0"
      by (simp add: distance_def pow2_def)
    from True assms have "x (position bodyB) - x (position bodyA) = Fin 0" by simp
    with d have "normalX bodyA bodyB = NaN" by (simp add: normalX_def)
    moreover from True assms have "y (position bodyB) - y (position bodyA) = Fin 0" by simp
    with d have "normalY bodyA bodyB = NaN" by (simp add: normalY_def)
    ultimately have "dotProduct bodyA bodyB = NaN"
      by (simp add: dotProduct_def times_NaN_right)
    then show ?thesis ..
  next
    case False
    with dx dy have "?dx = NaN \<or> ?dy = NaN" by auto
    then have "pow2 ?dx + pow2 ?dy = NaN"
      by (cases "pow2 ?dx"; cases "pow2 ?dy") (auto simp: pow2_def)
    then have "distance bodyA bodyB = NaN" by (simp add: distance_def)
    then show ?thesis by simp
  qed
qed

lemma coincident_distance:
  assumes "position bodyA = position bodyB"
    and "is_fin (x (position bodyA))" and "is_fin (y (position bodyA))"
  shows "distance bodyA bodyB = 0"
proof -
  from assms(2,3) obtain a b where "x (position bodyA) = Fin a" "y (position bodyA) = Fin b"
    by (cases "x (position bodyA)"; cases "y (position bodyA)") simp_all
  with assms(1) show ?thesis
    by (simp add: distance_def number_defs)
qed

text \<open>
  Claim C2: when the centres of two bodies coincide, resolving the pair gives a defined
  outcome: positions and velocities that held no NaN hold none afterwards. For finite
  coinciding centres the distance is \<open>0\<close> and the normal is \<open>0 / 0\<close>, which is NaN, so the
  dot product is NaN, the test \<open>dotProduct < 0\<close> fails and both bodies are left as they
  were. The guard is this comparison; there is no fallback normal. (In doubles a distance
  \<open>0\<close> is also computed for distinct centres so close that the squares of their
  differences underflow; such centres do not coincide.)
\<close>

theorem coincident_centres_defined:
  assumes "position bodyA = position bodyB" and "no_NaN bodyA" and "no_NaN bodyB"
  shows "resolve_pair eng bodyA bodyB = (bodyA, bodyB) \<and>
         no_NaN (fst (resolve_pair eng bodyA bodyB)) \<and>
         no_NaN (snd (resolve_pair eng bodyA bodyB))"
  using coincident_not_resolved [OF assms(1)] assms(2,3) by (auto simp: resolve_pair_def)

theorem coincident_centres_defined_witness:
  "position left_ball = position (right_ball\<lparr>position := position left_ball\<rparr>) \<and>
   no_NaN left_ball \<and> no_NaN (right_ball\<lparr>position := position left_ball\<rparr>) \<and>
   distance left_ball (right_ball\<lparr>position := position left_ball\<rparr>) = 0 \<and>
   resolve_pair demo_engine left_ball (right_ball\<lparr>position := position left_ball\<rparr>) =
     (left_ball, right_ball\<lparr>position := position left_ball\<rparr>)"
proof -
  have p: "position left_ball = position (right_ball\<lparr>position := position left_ball\<rparr>)"
    by simp
  have a: "no_NaN left_ball"
    by (simp add: no_NaN_def demo_defs)
  have b: "no_NaN (right_ball\<lparr>position := position left_ball\<rparr>)"
    by (simp add: no_NaN_def demo_defs)
  have d: "distance left_ball (right_ball\<lparr>position := position left_ball\<rparr>) = 0"
    by (rule coincident_distance) (simp_all add: demo_defs)
  from coincident_centres_defined [OF p a b, of demo_engine] p a b d show ?thesis
    by simp
qed

text \<open>
'
  Centres that are distinct but \<open>2 ^ - 600\<close> apart: the squares of the differences
  underflow and the computed distance is \<open>0\<close>.
\<close>

lemma underflow_distance:
  "position origin_ball \<noteq> position close_ball \<and> distance origin_ball close_ball = Fin 0"
proof -
  have d: "round64 (- (1 / 2 ^ 600)) = Fin (- (1 / 2 ^ 600))"
    using round64_representable [OF is_double_ratio [of "- 1" 600]] by simp
  have "\<bar>(1::real) / 2 ^ 600 * (1 / 2 ^ 600)\<bar> < 1 / 2 ^ 1075" by simp
  then have u: "round64 (1 / 2 ^ 600 * (1 / 2 ^ 600)) = Fin 0"
    by (rule round64_underflow)
  note r = d [simplified] u [simplified]
  have "distance origin_ball close_ball = Fin 0"
    by (simp add: distance_def origin_ball_def close_ball_def number_defs r)
  then show ?thesis by (simp add: origin_ball_def close_ball_def)
qed



text \<open>
  The test is on the computed dot product. For the sliding pair the exact dot product is
  \<open>0\<close>, but the components \<open>0.6\<close> and \<open>0.8\<close> of the normal are rounded and the computed dot
  product is \<open>- 2 ^ - 51\<close>: the pair counts as approaching and is resolved.
\<close>

lemma sliding_pair_rounding:
  shows "distance still_ball sliding_ball = Fin 5"
    and "normalX still_ball sliding_ball = Fin (5404319552844595 / 2 ^ 53)"
    and "normalY still_ball sliding_ball = Fin (3602879701896397 / 2 ^ 52)"
    and "dotProduct still_ball sliding_ball = Fin (- (1 / 2 ^ 51))"
proof -
  have q: "sqrt 25 = 5" using real_sqrt_abs [of 5] by simp
  have f1: "round64 (- 3) = Fin (- 3)"
    using round64_eval [of "1" "- 3" "-51" "-6755399441055744"]
    by (simp add: powr_neg_numeral round_even_def)
  have f2: "round64 (- 4) = Fin (- 4)"
    using round64_eval [of "2" "- 4" "-50" "-4503599627370496"]
    by (simp add: powr_neg_numeral round_even_def)
  have f3: "round64 (9) = Fin (9)"
    using round64_eval [of "3" "9" "-49" "5066549580791808"]
    by (simp add: powr_neg_numeral round_even_def)
  have f4: "round64 (16) = Fin (16)"
    using round64_eval [of "4" "16" "-48" "4503599627370496"]
    by (simp add: powr_neg_numeral round_even_def)
  have f5: "round64 (25) = Fin (25)"
    using round64_eval [of "4" "25" "-48" "7036874417766400"]
    by (simp add: powr_neg_numeral round_even_def)
  have f6: "round64 (5) = Fin (5)"
    using round64_eval [of "2" "5" "-50" "5629499534213120"]
    by (simp add: powr_neg_numeral round_even_def)
  have f7: "round64 (3) = Fin (3)"
    using round64_eval [of "1" "3" "-51" "6755399441055744"]
    by (simp add: powr_neg_numeral round_even_def)
  have f8: "round64 (3 / 5) = Fin (5404319552844595 / 2 ^ 53)"
    using round64_eval [of "-1" "3 / 5" "-53" "5404319552844595"]
    by (simp add: powr_neg_numeral round_even_def)
  have f9: "round64 (4) = Fin (4)"
    using round64_eval [of "2" "4" "-50" "4503599627370496"]
    by (simp add: powr_neg_numeral round_even_def)
  have f10: "round64 (4 / 5) = Fin (3602879701896397 / 2 ^ 52)"
    using round64_eval [of "-1" "4 / 5" "-53" "7205759403792794"]
    by (simp add: powr_neg_numeral round_even_def)
  have f11: "round64 (5404319552844595 / 2 ^ 51) = Fin (5404319552844595 / 2 ^ 51)"
    using round64_eval [of "1" "5404319552844595 / 2 ^ 51" "-51" "5404319552844595"]
    by (simp add: powr_neg_numeral round_even_def)
  have f12: "round64 (- (10808639105689191 / 2 ^ 52)) = Fin (- (1351079888211149 / 2 ^ 49))"
    using round64_eval [of "1" "- (10808639105689191 / 2 ^ 52)" "-51" "-5404319552844596"]
    by (simp add: powr_neg_numeral round_even_def)
  have f13: "round64 (- (1 / 2 ^ 51)) = Fin (- (1 / 2 ^ 51))"
    using round64_eval [of "-51" "- (1 / 2 ^ 51)" "-103" "-4503599627370496"]
    by (simp add: powr_neg_numeral round_even_def)
  note f = f1 [simplified] f2 [simplified] f3 [simplified] f4 [simplified] f5 [simplified] f6 [simplified] f7 [simplified] f8 [simplified] f9 [simplified] f10 [simplified] f11 [simplified] f12 [simplified] f13 [simplified]
  show "distance still_ball sliding_ball = Fin 5"
    and "normalX still_ball sliding_ball = Fin (5404319552844595 / 2 ^ 53)"
    and "normalY still_ball sliding_ball = Fin (3602879701896397 / 2 ^ 52)"
    and "dotProduct still_ball sliding_ball = Fin (- (1 / 2 ^ 51))"
    by (simp_all add: distance_def normalX_def normalY_def dotProduct_def Let_def
        still_ball_def sliding_ball_def number_defs q f)
qed

lemma sliding_pair_resolved:
  "distance still_ball sliding_ball < radius still_ball + radius sliding_ball \<and>
   dotProduct still_ball sliding_ball < 0 \<and>
   resolve_pair demo_engine still_ball sliding_ball \<noteq> (still_ball, sliding_ball)"
proof -
  note P = sliding_pair_rounding
  have c: "distance still_ball sliding_ball < radius still_ball + radius sliding_ball"
    unfolding P by (simp add: still_ball_def sliding_ball_def double_simps)
  have d: "dotProduct still_ball sliding_ball < 0"
    unfolding P by (simp add: zero_number_def)
  have "radius still_ball + radius sliding_ball - distance still_ball sliding_ball = Fin 5"
    unfolding P by (simp add: still_ball_def sliding_ball_def number_defs double_simps)
  moreover have "Fin 5 / Fin 2 = Fin (5 / 2)"
    by (simp add: round64_representable is_double_half)
  moreover have "Fin (5 / 2) * Fin (5404319552844595 / 2 ^ 53) = Fin (3 / 2)"
    using round64_eval [of 0 "5 / 2 * (5404319552844595 / 2 ^ 53)" "-52" 6755399441055744]
    by (simp add: powr_neg_numeral round_even_def)
  moreover have "Fin 100 - Fin (3 / 2) = Fin (197 / 2)"
    by (simp add: number_defs round64_representable is_double_half)
  ultimately have "x (position (fst (resolve_pair demo_engine still_ball sliding_ball)))
      = Fin (197 / 2)"
    using c d unfolding resolve_pair_def Let_def P(2)
    by (simp add: still_ball_def)
  then have "fst (resolve_pair demo_engine still_ball sliding_ball) \<noteq> still_ball"
    by (auto simp: still_ball_def)
  with c d show ?thesis by auto
qed

subsection \<open>The sample pairs, resolved\<close>

text \<open>
  The values the engine computes for the sample pairs, operation by operation; every
  rounding is evaluated with \<open>round64_eval\<close>.
\<close>

lemma momentum_pair_resolved:
  shows "distance light_ball heavy_ball = Fin 1"
    and "normalX light_ball heavy_ball = Fin 1"
    and "normalY light_ball heavy_ball = Fin 0"
    and "dotProduct light_ball heavy_ball = Fin (- 5)"
    and "impulse half_engine light_ball heavy_ball = Fin (7237927972559725 / 2 ^ 50)"
    and "impulseX half_engine light_ball heavy_ball = Fin (7237927972559725 / 2 ^ 50)"
    and "impulseY half_engine light_ball heavy_ball = Fin 0"
    and "impulseX half_engine light_ball heavy_ball / mass light_ball = Fin (7237927972559725 / 2 ^ 50)"
    and "impulseX half_engine light_ball heavy_ball / mass heavy_ball = Fin (4825285315039817 / 2 ^ 52)"
    and "impulseY half_engine light_ball heavy_ball / mass light_ball = Fin 0"
    and "impulseY half_engine light_ball heavy_ball / mass heavy_ball = Fin 0"
    and "velocity (fst (resolve_pair half_engine light_ball heavy_ball)) =
       \<lparr>x = Fin (- (2734328345189229 / 2 ^ 50)), y = Fin 0\<rparr>"
    and "velocity (snd (resolve_pair half_engine light_ball heavy_ball)) =
       \<lparr>x = Fin (321685687669321 / 2 ^ 52), y = Fin 0\<rparr>"
proof -
  have f1: "round64 (- 1) = Fin (- 1)"
    using round64_eval [of "0" "- 1" "-52" "-4503599627370496"]
    by (simp add: powr_neg_numeral round_even_def)
  have f2: "round64 (1) = Fin (1)"
    using round64_eval [of "0" "1" "-52" "4503599627370496"]
    by (simp add: powr_neg_numeral round_even_def)
  have f3: "round64 (- 5) = Fin (- 5)"
    using round64_eval [of "2" "- 5" "-50" "-5629499534213120"]
    by (simp add: powr_neg_numeral round_even_def)
  have f4: "round64 (3 / 2) = Fin (3 / 2)"
    using round64_eval [of "0" "3 / 2" "-52" "6755399441055744"]
    by (simp add: powr_neg_numeral round_even_def)
  have f5: "round64 (15 / 2) = Fin (15 / 2)"
    using round64_eval [of "2" "15 / 2" "-50" "8444249301319680"]
    by (simp add: powr_neg_numeral round_even_def)
  have f6: "round64 (1 / 6) = Fin (6004799503160661 / 2 ^ 55)"
    using round64_eval [of "-3" "1 / 6" "-55" "6004799503160661"]
    by (simp add: powr_neg_numeral round_even_def)
  have f7: "round64 (42033596522124629 / 2 ^ 55) = Fin (5254199565265579 / 2 ^ 52)"
    using round64_eval [of "0" "42033596522124629 / 2 ^ 55" "-52" "5254199565265579"]
    by (simp add: powr_neg_numeral round_even_def)
  have f8: "round64 (33776997205278720 / 5254199565265579) = Fin (7237927972559725 / 2 ^ 50)"
    using round64_eval [of "2" "33776997205278720 / 5254199565265579" "-50" "7237927972559725"]
    by (simp add: powr_neg_numeral round_even_def)
  have f9: "round64 (7237927972559725 / 2 ^ 50) = Fin (7237927972559725 / 2 ^ 50)"
    using round64_eval [of "2" "7237927972559725 / 2 ^ 50" "-50" "7237927972559725"]
    by (simp add: powr_neg_numeral round_even_def)
  have f10: "round64 (7237927972559725 / 6755399441055744) = Fin (4825285315039817 / 2 ^ 52)"
    using round64_eval [of "0" "7237927972559725 / 6755399441055744" "-52" "4825285315039817"]
    by (simp add: powr_neg_numeral round_even_def)
  have f11: "round64 (- (2734328345189229 / 2 ^ 50)) = Fin (- (2734328345189229 / 2 ^ 50))"
    using round64_eval [of "1" "- (2734328345189229 / 2 ^ 50)" "-51" "-5468656690378458"]
    by (simp add: powr_neg_numeral round_even_def)
  have f12: "round64 (321685687669321 / 2 ^ 52) = Fin (321685687669321 / 2 ^ 52)"
    using round64_eval [of "-4" "321685687669321 / 2 ^ 52" "-56" "5146971002709136"]
    by (simp add: powr_neg_numeral round_even_def)
  have f13: "round64 (2) = Fin (2)"
    using round64_eval [of "1" "2" "-51" "4503599627370496"]
    by (simp add: powr_neg_numeral round_even_def)
  have f14: "round64 (1 / 2) = Fin (1 / 2)"
    using round64_eval [of "-1" "1 / 2" "-53" "4503599627370496"]
    by (simp add: powr_neg_numeral round_even_def)
  have f15: "round64 (199 / 2) = Fin (199 / 2)"
    using round64_eval [of "6" "199 / 2" "-46" "7001690045677568"]
    by (simp add: powr_neg_numeral round_even_def)
  have f16: "round64 (100) = Fin (100)"
    using round64_eval [of "6" "100" "-46" "7036874417766400"]
    by (simp add: powr_neg_numeral round_even_def)
  have f17: "round64 (203 / 2) = Fin (203 / 2)"
    using round64_eval [of "6" "203 / 2" "-46" "7142427534032896"]
    by (simp add: powr_neg_numeral round_even_def)
  note f = f1 [simplified] f2 [simplified] f3 [simplified] f4 [simplified] f5 [simplified] f6 [simplified] f7 [simplified] f8 [simplified] f9 [simplified] f10 [simplified] f11 [simplified] f12 [simplified] f13 [simplified] f14 [simplified] f15 [simplified] f16 [simplified] f17 [simplified]
  show "distance light_ball heavy_ball = Fin 1"
    and "normalX light_ball heavy_ball = Fin 1"
    and "normalY light_ball heavy_ball = Fin 0"
    and "dotProduct light_ball heavy_ball = Fin (- 5)"
    and "impulse half_engine light_ball heavy_ball = Fin (7237927972559725 / 2 ^ 50)"
    and "impulseX half_engine light_ball heavy_ball = Fin (7237927972559725 / 2 ^ 50)"
    and "impulseY half_engine light_ball heavy_ball = Fin 0"
    and "impulseX half_engine light_ball heavy_ball / mass light_ball = Fin (7237927972559725 / 2 ^ 50)"
    and "impulseX half_engine light_ball heavy_ball / mass heavy_ball = Fin (4825285315039817 / 2 ^ 52)"
    and "impulseY half_engine light_ball heavy_ball / mass light_ball = Fin 0"
    and "impulseY half_engine light_ball heavy_ball / mass heavy_ball = Fin 0"
    and "velocity (fst (resolve_pair half_engine light_ball heavy_ball)) =
       \<lparr>x = Fin (- (2734328345189229 / 2 ^ 50)), y = Fin 0\<rparr>"
    and "velocity (snd (resolve_pair half_engine light_ball heavy_ball)) =
       \<lparr>x = Fin (321685687669321 / 2 ^ 52), y = Fin 0\<rparr>"
    by (simp_all add: resolve_pair_def distance_def normalX_def normalY_def dotProduct_def
        impulse_def impulseX_def impulseY_def Let_def light_ball_def heavy_ball_def half_engine_def number_defs f)
qed





subsection \<open>Momentum\<close>

lemma abs_four:
  fixes a b c d :: real
  shows "\<bar>a + b - c + d\<bar> \<le> \<bar>a\<bar> + \<bar>b\<bar> + \<bar>c\<bar> + \<bar>d\<bar>"
proof -
  have "\<bar>a + b - c + d\<bar> \<le> \<bar>a + b - c\<bar> + \<bar>d\<bar>" by (rule abs_triangle_ineq)
  moreover have "\<bar>a + b - c\<bar> \<le> \<bar>a + b\<bar> + \<bar>c\<bar>" by (rule abs_triangle_ineq4)
  moreover have "\<bar>a + b\<bar> \<le> \<bar>a\<bar> + \<bar>b\<bar>" by (rule abs_triangle_ineq)
  ultimately show ?thesis by linarith
qed

lemma scaled_error:
  fixes m q J eps eta :: real
  assumes "0 < m" and "\<bar>q - J / m\<bar> \<le> \<bar>J / m\<bar> * eps + eta"
  shows "m * \<bar>q - J / m\<bar> \<le> \<bar>J\<bar> * eps + m * eta"
proof -
  from assms have "m * \<bar>q - J / m\<bar> \<le> m * (\<bar>J / m\<bar> * eps + eta)"
    by (simp add: mult_left_mono)
  also have "\<dots> = (m * \<bar>J / m\<bar>) * eps + m * eta" by (simp add: algebra_simps)
  also have "m * \<bar>J / m\<bar> = \<bar>J\<bar>" using assms(1) by (simp add: abs_divide)
  finally show ?thesis .
qed

lemma momentum_error_bound:
  fixes ma mb u w J qa qb va vb eps eta :: real
  assumes ma: "0 < ma" and mb: "0 < mb"
    and qa: "\<bar>qa - J / ma\<bar> \<le> \<bar>J / ma\<bar> * eps + eta"
    and qb: "\<bar>qb - J / mb\<bar> \<le> \<bar>J / mb\<bar> * eps + eta"
    and va: "\<bar>va - (u - qa)\<bar> \<le> \<bar>u - qa\<bar> * eps + eta"
    and vb: "\<bar>vb - (w + qb)\<bar> \<le> \<bar>w + qb\<bar> * eps + eta"
  shows "\<bar>(ma * va + mb * vb) - (ma * u + mb * w)\<bar>
       \<le> (2 * \<bar>J\<bar> + ma * \<bar>u - qa\<bar> + mb * \<bar>w + qb\<bar>) * eps + 2 * (ma + mb) * eta"
proof -
  have split: "(ma * va + mb * vb) - (ma * u + mb * w)
      = ma * (va - (u - qa)) + mb * (vb - (w + qb)) - ma * (qa - J / ma) + mb * (qb - J / mb)"
    using ma mb by (simp add: field_simps)
  have "\<bar>(ma * va + mb * vb) - (ma * u + mb * w)\<bar>
      \<le> \<bar>ma * (va - (u - qa))\<bar> + \<bar>mb * (vb - (w + qb))\<bar> + \<bar>ma * (qa - J / ma)\<bar>
        + \<bar>mb * (qb - J / mb)\<bar>"
    unfolding split by (rule abs_four)
  also have "\<dots> = ma * \<bar>va - (u - qa)\<bar> + mb * \<bar>vb - (w + qb)\<bar> + ma * \<bar>qa - J / ma\<bar>
        + mb * \<bar>qb - J / mb\<bar>"
    using ma mb by (simp add: abs_mult)
  finally have tri: "\<bar>(ma * va + mb * vb) - (ma * u + mb * w)\<bar>
      \<le> ma * \<bar>va - (u - qa)\<bar> + mb * \<bar>vb - (w + qb)\<bar> + ma * \<bar>qa - J / ma\<bar>
        + mb * \<bar>qb - J / mb\<bar>" .
  have a: "ma * \<bar>va - (u - qa)\<bar> \<le> ma * \<bar>u - qa\<bar> * eps + ma * eta"
    using mult_left_mono [OF va, of ma] ma by (simp add: algebra_simps)
  have b: "mb * \<bar>vb - (w + qb)\<bar> \<le> mb * \<bar>w + qb\<bar> * eps + mb * eta"
    using mult_left_mono [OF vb, of mb] mb by (simp add: algebra_simps)
  note c = scaled_error [OF ma qa] and d = scaled_error [OF mb qb]
  have "ma * \<bar>va - (u - qa)\<bar> + mb * \<bar>vb - (w + qb)\<bar> + ma * \<bar>qa - J / ma\<bar>
        + mb * \<bar>qb - J / mb\<bar>
      \<le> (ma * \<bar>u - qa\<bar> * eps + ma * eta) + (mb * \<bar>w + qb\<bar> * eps + mb * eta)
        + (\<bar>J\<bar> * eps + ma * eta) + (\<bar>J\<bar> * eps + mb * eta)"
    using a b c d by linarith
  also have "\<dots> = (2 * \<bar>J\<bar> + ma * \<bar>u - qa\<bar> + mb * \<bar>w + qb\<bar>) * eps + 2 * (ma + mb) * eta"
    by (simp add: algebra_simps)
  finally show ?thesis using tri by linarith
qed

text \<open>One component of the two velocity updates.\<close>

lemma component_momentum:
  assumes va: "u - I / Fin ma = Fin va" and vb: "w + I / Fin mb = Fin vb"
    and ma: "0 < ma" and mb: "0 < mb"
  shows "\<bar>(ma * va + mb * vb) - (ma * val u + mb * val w)\<bar>
       \<le> momentum_tolerance ma mb (val I) (val u) (val (I / Fin ma)) (val w) (val (I / Fin mb))"
proof -
  from minus_error [OF va] obtain p qa where u: "u = Fin p" and qa: "I / Fin ma = Fin qa"
    and e1: "\<bar>va - (p - qa)\<bar> \<le> \<bar>p - qa\<bar> / 2 ^ 53 + 1 / 2 ^ 1075" by blast
  from plus_error [OF vb] obtain r qb where w: "w = Fin r" and qb: "I / Fin mb = Fin qb"
    and e2: "\<bar>vb - (r + qb)\<bar> \<le> \<bar>r + qb\<bar> / 2 ^ 53 + 1 / 2 ^ 1075" by blast
  from ma mb have nz: "ma \<noteq> 0" "mb \<noteq> 0" by simp_all
  from divide_error [OF qa nz(1)] obtain J where I: "I = Fin J"
    and e3: "\<bar>qa - J / ma\<bar> \<le> \<bar>J / ma\<bar> / 2 ^ 53 + 1 / 2 ^ 1075" by blast
  from divide_error [OF qb nz(2)] I
  have e4: "\<bar>qb - J / mb\<bar> \<le> \<bar>J / mb\<bar> / 2 ^ 53 + 1 / 2 ^ 1075" by auto
  have "\<bar>(ma * va + mb * vb) - (ma * p + mb * r)\<bar>
       \<le> (2 * \<bar>J\<bar> + ma * \<bar>p - qa\<bar> + mb * \<bar>r + qb\<bar>) * (1 / 2 ^ 53) + 2 * (ma + mb) * (1 / 2 ^ 1075)"
    using ma mb
    by (rule momentum_error_bound)
      (use e1 e2 e3 e4 in \<open>simp_all only: times_divide_eq_right mult_1_right\<close>)
  also have "2 * (ma + mb) * (1 / 2 ^ 1075) = (ma + mb) / 2 ^ 1074"
    by simp
  finally have "\<bar>(ma * va + mb * vb) - (ma * p + mb * r)\<bar> \<le> momentum_tolerance ma mb J p qa r qb"
    by (simp only: momentum_tolerance_def times_divide_eq_right mult_1_right)
  then show ?thesis
    using qa qb by (simp add: u w I)
qed

text \<open>
  Claim C3 as stated: the momentum \<open>massA * velA + massB * velB\<close> of an approaching,
  colliding pair with positive masses is the same before and after the impulse. For masses
  \<open>1\<close> and \<open>6\<close>, velocities \<open>4\<close> and \<open>- 1\<close> and elasticity \<open>0.5\<close> the quotients
  \<open>impulse / mass\<close> are rounded, and the momentum of the pair is \<open>- 2\<close> before and
  \<open>- 2 + 2 ^ - 51\<close> after.
\<close>

theorem momentum_rounding_counterexample:
  "is_fin (mass light_ball) \<and> 0 < mass light_ball \<and>
   is_fin (mass heavy_ball) \<and> 0 < mass heavy_ball \<and>
   distance light_ball heavy_ball < radius light_ball + radius heavy_ball \<and>
   dotProduct light_ball heavy_ball < 0 \<and>
   velocity (fst (resolve_pair half_engine light_ball heavy_ball)) =
     \<lparr>x = Fin (- (2734328345189229 / 2 ^ 50)), y = Fin 0\<rparr> \<and>
   velocity (snd (resolve_pair half_engine light_ball heavy_ball)) =
     \<lparr>x = Fin (321685687669321 / 2 ^ 52), y = Fin 0\<rparr> \<and>
   momentumX light_ball heavy_ball = - 2 \<and>
   momentumX (fst (resolve_pair half_engine light_ball heavy_ball))
     (snd (resolve_pair half_engine light_ball heavy_ball)) = - 2 + 1 / 2 ^ 51"
proof -
  note P = momentum_pair_resolved
  have m: "is_fin (mass light_ball)" "0 < mass light_ball"
    "is_fin (mass heavy_ball)" "0 < mass heavy_ball"
    by (simp_all add: light_ball_def heavy_ball_def zero_number_def)
  have c: "distance light_ball heavy_ball < radius light_ball + radius heavy_ball"
    unfolding P by (simp add: light_ball_def heavy_ball_def double_simps)
  have d: "dotProduct light_ball heavy_ball < 0"
    unfolding P by (simp add: zero_number_def)
  have before: "momentumX light_ball heavy_ball = - 2"
    by (simp add: momentumX_def light_ball_def heavy_ball_def)
  have after: "momentumX (fst (resolve_pair half_engine light_ball heavy_ball))
     (snd (resolve_pair half_engine light_ball heavy_ball)) = - 2 + 1 / 2 ^ 51"
    unfolding momentumX_def mass_resolve_pair P
    by (simp add: light_ball_def heavy_ball_def)
  from m c d before after P(12,13) show ?thesis by simp
qed

text \<open>
  Claim C3 as amended: for an approaching, colliding pair with finite positive masses whose
  velocities after the resolution are finite, the momentum after the impulse equals the
  momentum before within floating-point tolerance: each component changes by at most
  \<open>(2 * |J| + massA * |velA - J / massA| + massB * |velB + J / massB|) / 2 ^ 53 +
  (massA + massB) / 2 ^ 1074\<close>, where \<open>J\<close> is that component of the computed impulse vector and
  the quotients are the computed ones. The same impulse vector is subtracted from one body
  and added to the other; the error is that of the four roundings of the two updates.
\<close>

theorem impulse_conserves_momentum:
  assumes mA: "is_fin (mass bodyA)" "0 < mass bodyA"
    and mB: "is_fin (mass bodyB)" "0 < mass bodyB"
    and col: "distance bodyA bodyB < radius bodyA + radius bodyB"
    and dot: "dotProduct bodyA bodyB < 0"
    and fA: "finite_velocity (fst (resolve_pair eng bodyA bodyB))"
    and fB: "finite_velocity (snd (resolve_pair eng bodyA bodyB))"
  shows "\<bar>momentumX (fst (resolve_pair eng bodyA bodyB)) (snd (resolve_pair eng bodyA bodyB))
            - momentumX bodyA bodyB\<bar> \<le> momentum_toleranceX eng bodyA bodyB \<and>
         \<bar>momentumY (fst (resolve_pair eng bodyA bodyB)) (snd (resolve_pair eng bodyA bodyB))
            - momentumY bodyA bodyB\<bar> \<le> momentum_toleranceY eng bodyA bodyB"
proof -
  from mA obtain ma where ma: "mass bodyA = Fin ma" "0 < ma"
    by (auto dest!: is_finD simp: zero_number_def)
  from mB obtain mb where mb: "mass bodyB = Fin mb" "0 < mb"
    by (auto dest!: is_finD simp: zero_number_def)
  note V = resolve_pair_velocity [OF col dot, of eng]
  from fA obtain vax vay where A: "velocity (fst (resolve_pair eng bodyA bodyB)) = \<lparr>x = Fin vax, y = Fin vay\<rparr>"
    unfolding finite_velocity_def
    by (cases "velocity (fst (resolve_pair eng bodyA bodyB))") (auto dest!: is_finD)
  from fB obtain vbx vby where B: "velocity (snd (resolve_pair eng bodyA bodyB)) = \<lparr>x = Fin vbx, y = Fin vby\<rparr>"
    unfolding finite_velocity_def
    by (cases "velocity (snd (resolve_pair eng bodyA bodyB))") (auto dest!: is_finD)
  from A B V have X: "x (velocity bodyA) - impulseX eng bodyA bodyB / Fin ma = Fin vax"
      "x (velocity bodyB) + impulseX eng bodyA bodyB / Fin mb = Fin vbx"
    and Y: "y (velocity bodyA) - impulseY eng bodyA bodyB / Fin ma = Fin vay"
      "y (velocity bodyB) + impulseY eng bodyA bodyB / Fin mb = Fin vby"
    by (simp_all add: ma mb)
  from component_momentum [OF X ma(2) mb(2)] component_momentum [OF Y ma(2) mb(2)]
  show ?thesis
    by (simp add: momentumX_def momentumY_def momentum_toleranceX_def momentum_toleranceY_def
        mass_resolve_pair A B ma mb)
qed

theorem impulse_conserves_momentum_witness:
  "is_fin (mass light_ball) \<and> 0 < mass light_ball \<and>
   is_fin (mass heavy_ball) \<and> 0 < mass heavy_ball \<and>
   distance light_ball heavy_ball < radius light_ball + radius heavy_ball \<and>
   dotProduct light_ball heavy_ball < 0 \<and>
   finite_velocity (fst (resolve_pair half_engine light_ball heavy_ball)) \<and>
   finite_velocity (snd (resolve_pair half_engine light_ball heavy_ball)) \<and>
   momentum_toleranceX half_engine light_ball heavy_ball < 1 / 2 ^ 49 \<and>
   momentum_toleranceY half_engine light_ball heavy_ball < 1 / 2 ^ 49 \<and>
   \<bar>momentumX (fst (resolve_pair half_engine light_ball heavy_ball))
       (snd (resolve_pair half_engine light_ball heavy_ball))
      - momentumX light_ball heavy_ball\<bar> \<le> momentum_toleranceX half_engine light_ball heavy_ball \<and>
   \<bar>momentumY (fst (resolve_pair half_engine light_ball heavy_ball))
       (snd (resolve_pair half_engine light_ball heavy_ball))
      - momentumY light_ball heavy_ball\<bar> \<le> momentum_toleranceY half_engine light_ball heavy_ball"
proof -
  note P = momentum_pair_resolved
  have m: "is_fin (mass light_ball)" "0 < mass light_ball"
    "is_fin (mass heavy_ball)" "0 < mass heavy_ball"
    by (simp_all add: light_ball_def heavy_ball_def zero_number_def)
  have c: "distance light_ball heavy_ball < radius light_ball + radius heavy_ball"
    unfolding P by (simp add: light_ball_def heavy_ball_def double_simps)
  have d: "dotProduct light_ball heavy_ball < 0"
    unfolding P by (simp add: zero_number_def)
  have f: "finite_velocity (fst (resolve_pair half_engine light_ball heavy_ball))"
    "finite_velocity (snd (resolve_pair half_engine light_ball heavy_ball))"
    unfolding finite_velocity_def P by simp_all
  have t: "momentum_toleranceX half_engine light_ball heavy_ball < 1 / 2 ^ 49"
    "momentum_toleranceY half_engine light_ball heavy_ball < 1 / 2 ^ 49"
    unfolding momentum_toleranceX_def momentum_toleranceY_def momentum_tolerance_def
    unfolding P(8-11) unfolding P(6,7)
    by (simp_all add: light_ball_def heavy_ball_def)
  from impulse_conserves_momentum [OF m(1,2) m(3,4) c d f] m c d f t show ?thesis
    by simp
qed

subsection \<open>Velocity exchange and kinetic energy\<close>












section \<open>What a tick leaves alone\<close>

lemma frame_integrate: "frame (integrate eng deltaTime body) = frame body"
  by (simp add: frame_def integrate_def Let_def)

lemma frame_resolve_pair:
  "frame (fst (resolve_pair eng bodyA bodyB)) = frame bodyA"
  "frame (snd (resolve_pair eng bodyA bodyB)) = frame bodyB"
  by (simp_all add: frame_def resolve_pair_def Let_def)

lemma frame_boundary: "frame (boundary eng body) = frame body"
  by (simp add: frame_def boundary_def floor_wall_def ceiling_wall_def right_wall_def
      left_wall_def split: option.splits)

lemma map_update_same:
  "i < length xs \<Longrightarrow> f a = f (xs ! i) \<Longrightarrow> map f (xs[i := a]) = map f xs"
  by (simp add: map_update list_update_same_conv)

lemma frame_collisions: "map frame (collisions eng i j bodies) = map frame bodies"
proof (induction eng i j bodies rule: collisions.induct)
  case (1 eng i j bodies)
  show ?case
  proof (cases "i < length bodies")
    case False
    then show ?thesis
      by (simp add: collisions.simps [of eng i j bodies])
  next
    case i: True
    show ?thesis
    proof (cases "j < length bodies")
      case False
      with i "1.IH"(2) show ?thesis
        by (simp add: collisions.simps [of eng i j bodies])
    next
      case j: True
      obtain bodyA bodyB where r: "resolve_pair eng (bodies ! i) (bodies ! j) = (bodyA, bodyB)"
        by (cases "resolve_pair eng (bodies ! i) (bodies ! j)")
      from frame_resolve_pair [of eng "bodies ! i" "bodies ! j"] r
      have fa: "frame bodyA = frame (bodies ! i)" and fb: "frame bodyB = frame (bodies ! j)"
        by simp_all
      have "frame bodyB = frame (bodies[i := bodyA] ! j)"
        using i j fa fb by (cases "i = j") simp_all
      then have "map frame (bodies[i := bodyA, j := bodyB]) = map frame (bodies[i := bodyA])"
        using j by (simp add: map_update_same)
      also have "\<dots> = map frame bodies"
        using i fa by (simp add: map_update_same)
      finally have "map frame (bodies[i := bodyA, j := bodyB]) = map frame bodies" .
      with "1.IH"(1) [OF i j r [symmetric]] i j r show ?thesis
        by (simp add: collisions.simps [of eng i j bodies])
    qed
  qed
qed

text \<open>
  Claim C10: a tick changes positions and velocities only. The list of the bodies'
  identifier, mass, radius, colour and stored acceleration is the same list after the tick,
  so the number and the order of the bodies are kept and none of these fields is written.
\<close>

theorem updatePhysics_frame:
  "map frame (bodiesRef (updatePhysics deltaTime eng)) = map frame (bodiesRef eng)"
  by (simp add: updatePhysics_def frame_collisions frame_boundary frame_integrate comp_def)

section \<open>Boundary containment\<close>

lemma radius_boundary: "radius (boundary eng body) = radius body"
  by (simp add: boundary_def floor_wall_def ceiling_wall_def right_wall_def left_wall_def
      split: option.splits)

lemma boundary_x:
  assumes "canvasRef eng = Some canvas"
  shows "\<not> x (position (boundary eng body)) - radius (boundary eng body) < 0 \<and>
    (x (position (boundary eng body)) = width canvas - radius (boundary eng body) \<or>
     x (position (boundary eng body)) = radius (boundary eng body) \<or>
     \<not> width canvas < x (position (boundary eng body)) + radius (boundary eng body))"
  using assms self_minus_not_negative [of "radius body"]
  by (simp add: boundary_def floor_wall_def ceiling_wall_def right_wall_def left_wall_def)

lemma boundary_y:
  assumes "canvasRef eng = Some canvas"
  shows "\<not> y (position (boundary eng body)) - radius (boundary eng body) < 0 \<and>
    (y (position (boundary eng body)) = height canvas - radius (boundary eng body) \<or>
     y (position (boundary eng body)) = radius (boundary eng body) \<or>
     \<not> height canvas < y (position (boundary eng body)) + radius (boundary eng body))"
  using assms self_minus_not_negative [of "radius body"]
  by (simp add: boundary_def floor_wall_def ceiling_wall_def right_wall_def left_wall_def)

text \<open>A property of bodies that every pair resolution keeps is kept by the pair loop.\<close>

lemma collisions_invariant:
  "\<forall>bodyA bodyB. P bodyA \<longrightarrow> P bodyB \<longrightarrow>
      P (fst (resolve_pair eng bodyA bodyB)) \<and> P (snd (resolve_pair eng bodyA bodyB)) \<Longrightarrow>
   \<forall>b \<in> set bodies. P b \<Longrightarrow> \<forall>b \<in> set (collisions eng i j bodies). P b"
proof (induction eng i j bodies rule: collisions.induct)
  case (1 eng i j bodies)
  note step = "1.prems"(1) and all = "1.prems"(2)
  show ?case
  proof (cases "i < length bodies")
    case False
    with all show ?thesis
      by (simp add: collisions.simps [of eng i j bodies])
  next
    case i: True
    show ?thesis
    proof (cases "j < length bodies")
      case False
      with i "1.IH"(2) [OF _ _ step all] show ?thesis
        by (simp add: collisions.simps [of eng i j bodies])
    next
      case j: True
      obtain bodyA bodyB where r: "resolve_pair eng (bodies ! i) (bodies ! j) = (bodyA, bodyB)"
        by (cases "resolve_pair eng (bodies ! i) (bodies ! j)")
      from i j all have "P (bodies ! i)" and "P (bodies ! j)" by simp_all
      with step r have ab: "P bodyA" "P bodyB" by fastforce+
      have "set (bodies[i := bodyA, j := bodyB]) \<subseteq> insert bodyB (insert bodyA (set bodies))"
        by (meson insert_mono order_trans set_update_subset_insert)
      with ab all have "\<forall>b \<in> set (bodies[i := bodyA, j := bodyB]). P b" by auto
      from "1.IH"(1) [OF i j r [symmetric] step this] i j r show ?thesis
        by (simp add: collisions.simps [of eng i j bodies])
    qed
  qed
qed

lemma integrate_gridded: "gridded_position (integrate eng deltaTime body)"
  by (simp add: gridded_position_def integrate_def Let_def gridded_plus)

lemma resolve_pair_gridded:
  assumes "gridded_position bodyA" and "gridded_position bodyB"
  shows "gridded_position (fst (resolve_pair eng bodyA bodyB))"
    and "gridded_position (snd (resolve_pair eng bodyA bodyB))"
  using assms
  by (simp_all add: gridded_position_def resolve_pair_def Let_def gridded_plus gridded_minus)

lemma boundary_gridded:
  assumes "gridded_position body" and "gridded (radius body)"
  shows "gridded_position (boundary eng body)"
  using assms
  by (simp add: gridded_position_def boundary_def floor_wall_def ceiling_wall_def
      right_wall_def left_wall_def gridded_minus split: option.splits)

lemma collided_gridded:
  "\<forall>b \<in> set (collisions eng 0 1 (map (integrate eng deltaTime) bodies)). gridded_position b"
proof -
  have "\<forall>bodyA bodyB. gridded_position bodyA \<longrightarrow> gridded_position bodyB \<longrightarrow>
      gridded_position (fst (resolve_pair eng bodyA bodyB))
      \<and> gridded_position (snd (resolve_pair eng bodyA bodyB))"
    by (simp add: resolve_pair_gridded)
  moreover have "\<forall>b \<in> set (map (integrate eng deltaTime) bodies). gridded_position b"
    by (simp add: integrate_gridded)
  ultimately show ?thesis by (rule collisions_invariant)
qed

text \<open>
  Claim C1 as stated: after the boundary handler every body satisfies
  \<open>radius \<le> position.x \<le> width - radius\<close> and \<open>radius \<le> position.y \<le> height - radius\<close>.
  A body of radius \<open>400\<close> on the canvas of \<open>800\<close> by \<open>600\<close> is moved to \<open>y = 200\<close> by the floor
  test and back to \<open>y = 400\<close> by the ceiling test, above \<open>height - radius = 200\<close>: no
  position satisfies both vertical bounds for it. The time step is \<open>0\<close>, as on the first
  frame.
\<close>

theorem oversized_body_counterexample:
  "map position
       (bodiesRef (updatePhysics (Fin 0) (demo_engine\<lparr>bodiesRef := [big_body]\<rparr>)))
     = [\<lparr>x = Fin 400, y = Fin 400\<rparr>] \<and>
   map (in_bounds demo_canvas)
       (bodiesRef (updatePhysics (Fin 0) (demo_engine\<lparr>bodiesRef := [big_body]\<rparr>)))
     = [False]"
proof -
  let ?eng = "demo_engine\<lparr>bodiesRef := [big_body]\<rparr>"
  have m: "mass big_body = Fin 10" by (simp add: big_body_def)
  have acc: "accelerationX ?eng big_body = Fin 0"
    "accelerationY ?eng big_body = Fin (2758454771764429 / 2 ^ 48)"
    using default_accelerationX [OF m] default_acceleration [OF m]
    by (simp_all add: accelerationX_def accelerationY_def GRAVITY_def)
  have moved: "integrate ?eng (Fin 0) big_body = big_body"
    unfolding integrate_def Let_def acc
    by (simp add: big_body_def demo_engine_def frictionCoefficient_value double_simps)
  have "collisions ?eng 0 1 [big_body] = [big_body]"
    by (simp add: collisions.simps)
  then have tick: "bodiesRef (updatePhysics (Fin 0) ?eng) = [boundary ?eng big_body]"
    by (simp add: updatePhysics_def moved)
  have pos: "position (boundary ?eng big_body) = \<lparr>x = Fin 400, y = Fin 400\<rparr>"
    by (simp add: boundary_def floor_wall_def ceiling_wall_def right_wall_def left_wall_def
        big_body_def demo_engine_def demo_canvas_def number_defs double_simps)
  have rad: "radius (boundary ?eng big_body) = Fin 400"
    by (simp add: boundary_def floor_wall_def ceiling_wall_def right_wall_def left_wall_def
        big_body_def split: option.splits)
  have "\<not> in_bounds demo_canvas (boundary ?eng big_body)"
    unfolding in_bounds_def pos rad
    by (simp add: demo_canvas_def number_defs double_simps)
  with tick pos show ?thesis by simp
qed

text \<open>
  The upper bound can also fail for a body that fits the world, by rounding: the lower edge
  of the sample body is \<open>2 ^ - 44\<close> below the floor, the sum \<open>position.y + radius\<close> rounds to
  the height \<open>600\<close>, the floor test fails and the body stays below \<open>height - radius\<close>.
\<close>

lemma rounded_floor_test:
  "y (position edge_body) + radius edge_body = Fin 600 \<and>
   position (boundary demo_engine edge_body) = position edge_body \<and>
   height demo_canvas - radius edge_body = Fin 500 \<and>
   \<not> y (position (boundary demo_engine edge_body)) \<le> height demo_canvas - radius edge_body"
proof -
  have s: "round64 (8796093022208001 / 2 ^ 44 + 100) = Fin 600"
    using round64_eval [of 9 "8796093022208001 / 2 ^ 44 + 100" "-43" 5277655813324800]
    by (simp add: powr_neg_numeral round_even_def)
  have d: "round64 (8796093022208001 / 2 ^ 44 - 100) = Fin (7036874417766401 / 2 ^ 44)"
    using round64_representable [OF is_double_ratio [of 7036874417766401 44]]
    by simp
  note r = s [simplified] d [simplified]
  have p: "position (boundary demo_engine edge_body) = position edge_body"
    unfolding boundary_def floor_wall_def ceiling_wall_def right_wall_def left_wall_def
    by (simp add: edge_body_def demo_engine_def demo_canvas_def r number_defs double_simps)
  show ?thesis
    unfolding p by (simp add: edge_body_def demo_canvas_def r number_defs double_simps)
qed

text \<open>
  Claim C1 as amended: in a world with a canvas, after the boundary handler has run at the end
  of a tick, for every body the tests \<open>position.x - radius < 0\<close> and
  \<open>position.y - radius < 0\<close> fail, and on each axis the position is \<open>width - radius\<close>
  (\<open>height - radius\<close>), or it is \<open>radius\<close>, or the test \<open>position + radius > width\<close>
  (\<open>> height\<close>) fails on the rounded sum. The lower bounds hold exactly: when the radius is
  a finite double and the coordinate is not NaN, \<open>radius \<le> position.x\<close> and
  \<open>radius \<le> position.y\<close>, because a difference of doubles that is not zero does not round to
  zero. The upper bounds \<open>position.x \<le> width - radius\<close> and \<open>position.y \<le> height - radius\<close>
  hold only in the sense of these tests.
\<close>

theorem tick_boundary_containment:
  assumes c: "canvasRef eng = Some canvas"
  shows "\<forall>b \<in> set (bodiesRef (updatePhysics deltaTime eng)).
           \<not> x (position b) - radius b < 0 \<and> \<not> y (position b) - radius b < 0 \<and>
           (x (position b) = width canvas - radius b \<or> x (position b) = radius b \<or>
            \<not> width canvas < x (position b) + radius b) \<and>
           (y (position b) = height canvas - radius b \<or> y (position b) = radius b \<or>
            \<not> height canvas < y (position b) + radius b) \<and>
           (double_number (radius b) \<and> x (position b) \<noteq> NaN \<longrightarrow> radius b \<le> x (position b)) \<and>
           (double_number (radius b) \<and> y (position b) \<noteq> NaN \<longrightarrow> radius b \<le> y (position b))"
proof
  fix b assume "b \<in> set (bodiesRef (updatePhysics deltaTime eng))"
  then obtain b0
    where b0: "b0 \<in> set (collisions eng 0 1 (map (integrate eng deltaTime) (bodiesRef eng)))"
      and b: "b = boundary eng b0"
    by (auto simp: updatePhysics_def)
  from collided_gridded b0 have g0: "gridded_position b0" by blast
  note X = boundary_x [OF c, of b0, folded b] and Y = boundary_y [OF c, of b0, folded b]
  have grid: "gridded (x (position b))" "gridded (y (position b))" if "double_number (radius b)"
  proof -
    from that have "gridded (radius b0)"
      by (simp add: b radius_boundary double_number_gridded)
    with g0 have "gridded_position b" unfolding b by (rule boundary_gridded)
    then show "gridded (x (position b))" and "gridded (y (position b))"
      by (simp_all add: gridded_position_def)
  qed
  have lower_x: "radius b \<le> x (position b)"
    if "double_number (radius b)" and "x (position b) \<noteq> NaN"
    using X grid(1) that by (intro lower_bound_from_test) simp_all
  have lower_y: "radius b \<le> y (position b)"
    if "double_number (radius b)" and "y (position b) \<noteq> NaN"
    using Y grid(2) that by (intro lower_bound_from_test) simp_all
  show "\<not> x (position b) - radius b < 0 \<and> \<not> y (position b) - radius b < 0 \<and>
           (x (position b) = width canvas - radius b \<or> x (position b) = radius b \<or>
            \<not> width canvas < x (position b) + radius b) \<and>
           (y (position b) = height canvas - radius b \<or> y (position b) = radius b \<or>
            \<not> height canvas < y (position b) + radius b) \<and>
           (double_number (radius b) \<and> x (position b) \<noteq> NaN \<longrightarrow> radius b \<le> x (position b)) \<and>
           (double_number (radius b) \<and> y (position b) \<noteq> NaN \<longrightarrow> radius b \<le> y (position b))"
    using X Y lower_x lower_y by blast
qed

text \<open>A body below the floor is put back on it.\<close>

theorem tick_boundary_containment_witness:
  "canvasRef (demo_engine\<lparr>bodiesRef := [floor_body]\<rparr>) = Some demo_canvas \<and>
   map position (bodiesRef (updatePhysics (Fin 0) (demo_engine\<lparr>bodiesRef := [floor_body]\<rparr>)))
     = [\<lparr>x = Fin 400, y = Fin 580\<rparr>] \<and>
   list_all (\<lambda>b. double_number (radius b) \<and>
       radius b \<le> x (position b) \<and> radius b \<le> y (position b) \<and>
       y (position b) = height demo_canvas - radius b \<and>
       \<not> width demo_canvas < x (position b) + radius b)
     (bodiesRef (updatePhysics (Fin 0) (demo_engine\<lparr>bodiesRef := [floor_body]\<rparr>)))"
proof -
  let ?eng = "demo_engine\<lparr>bodiesRef := [floor_body]\<rparr>"
  have c: "canvasRef ?eng = Some demo_canvas" by (simp add: demo_engine_def)
  have m: "mass floor_body = Fin 10" by (simp add: floor_body_def)
  have acc: "accelerationX ?eng floor_body = Fin 0"
    "accelerationY ?eng floor_body = Fin (2758454771764429 / 2 ^ 48)"
    using default_accelerationX [OF m] default_acceleration [OF m]
    by (simp_all add: accelerationX_def accelerationY_def GRAVITY_def)
  have moved: "integrate ?eng (Fin 0) floor_body = floor_body"
    unfolding integrate_def Let_def acc
    by (simp add: floor_body_def demo_engine_def demo_canvas_def on_ground_def against_wall_def
        frictionCoefficient_value number_defs double_simps)
  have "collisions ?eng 0 1 [floor_body] = [floor_body]"
    by (simp add: collisions.simps)
  then have tick: "bodiesRef (updatePhysics (Fin 0) ?eng) = [boundary ?eng floor_body]"
    by (simp add: updatePhysics_def moved)
  have pos: "position (boundary ?eng floor_body) = \<lparr>x = Fin 400, y = Fin 580\<rparr>"
    by (simp add: boundary_def floor_wall_def ceiling_wall_def right_wall_def left_wall_def
        floor_body_def demo_engine_def demo_canvas_def number_defs double_simps)
  have rad: "radius (boundary ?eng floor_body) = Fin 20"
    by (simp add: radius_boundary floor_body_def)
  have facts: "double_number (radius (boundary ?eng floor_body))"
    "y (position (boundary ?eng floor_body)) = height demo_canvas - radius (boundary ?eng floor_body)"
    "\<not> width demo_canvas < x (position (boundary ?eng floor_body)) + radius (boundary ?eng floor_body)"
    unfolding pos rad by (simp_all add: demo_canvas_def number_defs double_simps)
  from tick_boundary_containment [OF c, of "Fin 0"]
  have "radius (boundary ?eng floor_body) \<le> x (position (boundary ?eng floor_body))"
    and "radius (boundary ?eng floor_body) \<le> y (position (boundary ?eng floor_body))"
    unfolding tick using facts(1) by (simp_all add: pos)
  with c tick pos facts show ?thesis by simp
qed

end
